theory Spec2Isabelle
  imports Complex_Main
begin

chapter \<open>Field overlays of pxt-blockly: grid picker, note picker, flyout button\<close>

text \<open>
  Pixel quantities and counters are JavaScript numbers that hold integers in every run the
  claims are about; they are modelled as \<^typ>\<open>int\<close>, on which the arithmetic of the
  source (\<open>+\<close>, \<open>-\<close>, comparisons) is exact.  Note frequencies are modelled as
  \<^typ>\<open>real\<close>, the ideal value of \<open>Math.pow(2, (k - 49) / 12) * 440\<close>.

  Names follow the sources.  The underscore that ends the name of a private member is left
  out or replaced, and a name that another record already uses gets a prefix or a suffix.
  Functions that the sources call but do not define are parameters of the definitions that
  use them.
\<close>

section \<open>Overlay placement\<close>

text \<open>\<open>goog.math.Coordinate\<close> and \<open>goog.math.Size\<close>.\<close>

record coordinate =
  coord_x :: int
  coord_y :: int

record size =
  width :: int
  height :: int

text \<open>
  \<open>FieldGridPicker.prototype.showEditor_\<close>, the part headed ``Position the menu'': the
  coordinate handed to \<open>Blockly.WidgetDiv.position\<close>.  \<open>CHECKMARK_OVERHANG\<close> is
  \<open>Blockly.FieldDropdown.CHECKMARK_OVERHANG\<close>, a constant declared outside the sources.
\<close>

definition gridPicker_position ::
  "int \<Rightarrow> bool \<Rightarrow> coordinate \<Rightarrow> size \<Rightarrow> size \<Rightarrow> size \<Rightarrow> coordinate \<Rightarrow> coordinate" where
  "gridPicker_position CHECKMARK_OVERHANG RTL xy paddingContainerSize borderBBox windowSize scrollOffset =
     (let xy1 =
        (if coord_y xy + height paddingContainerSize + height borderBBox \<ge>
            height windowSize + coord_y scrollOffset
         then xy\<lparr>coord_y := coord_y xy - (height paddingContainerSize + 2)\<rparr>
         else xy\<lparr>coord_y := coord_y xy + height borderBBox\<rparr>)
      in
        if RTL then
          (let xy2 = xy1\<lparr>coord_x := coord_x xy1 + width borderBBox\<rparr>;
               xy3 = xy2\<lparr>coord_x := coord_x xy2 + CHECKMARK_OVERHANG\<rparr>
           in if coord_x xy3 < coord_x scrollOffset + width paddingContainerSize
              then xy3\<lparr>coord_x := coord_x scrollOffset + width paddingContainerSize\<rparr>
              else xy3)
        else
          (let xy2 = xy1\<lparr>coord_x := coord_x xy1 - CHECKMARK_OVERHANG\<rparr>
           in if coord_x xy2 > width windowSize + coord_x scrollOffset - width paddingContainerSize
              then xy2\<lparr>coord_x := width windowSize + coord_x scrollOffset - width paddingContainerSize\<rparr>
              else xy2))"

text \<open>
  What \<open>FieldNote.prototype.showEditor_\<close> has measured when it places the piano: the
  flags \<open>mobile\<close> and \<open>sourceBlock_.RTL\<close>, the fields \<open>keyHeight\<close>,
  \<open>labelHeight\<close>, \<open>prevNextHeight\<close> and \<open>pianoWidth\<close> as they stand after the
  pagination and mobile adjustments, \<open>div.scrollHeight\<close>, the anchor \<open>xy\<close> and its
  \<open>borderBBox\<close>, the viewport, and the offsets of the widget div.
\<close>

record piano_env =
  mobile :: bool
  RTL :: bool
  keyHeight :: int
  labelHeight :: int
  prevNextHeight :: int
  pianoWidth :: int
  divScrollHeight :: int
  xy :: coordinate
  borderBBox :: size
  windowSize :: size
  scrollOffset :: coordinate
  widgetOffsetLeft :: int
  widgetOffsetTop :: int

text \<open>
  The pair \<open>(topPosition, leftPosition)\<close> of \<open>FieldNote.prototype.showEditor_\<close>: the
  offsets at which the keys, the label and the two buttons of the piano are placed inside
  the widget div.
\<close>

definition notePicker_position :: "piano_env \<Rightarrow> int \<times> int" where
  "notePicker_position e =
     (let pianoHeight = keyHeight e + divScrollHeight e + 5;
          topPosition = 0;
          leftPosition = 0
      in
        if \<not> mobile e then
          (let topPosition =
                 (if coord_y (xy e) + pianoHeight + height (borderBBox e) \<ge>
                     height (windowSize e) + coord_y (scrollOffset e)
                  then - (pianoHeight + height (borderBBox e))
                  else topPosition)
           in
             if RTL e then
               (let xy_x = coord_x (xy e) + width (borderBBox e);
                    xy_x = xy_x - pianoWidth e;
                    leftPosition = leftPosition + width (borderBBox e);
                    leftPosition = leftPosition - pianoWidth e
                in if xy_x < coord_x (scrollOffset e)
                   then (topPosition, coord_x (scrollOffset e) - xy_x)
                   else (topPosition, leftPosition))
             else
               (if coord_x (xy e) > width (windowSize e) + coord_x (scrollOffset e) - pianoWidth e
                then (topPosition,
                      leftPosition -
                        (coord_x (xy e) -
                           (width (windowSize e) + coord_x (scrollOffset e) - pianoWidth e) + 30))
                else (topPosition, leftPosition)))
        else
          (let leftPosition = - widgetOffsetLeft e;
               topPosition =
                 height (windowSize e) - (keyHeight e + labelHeight e + prevNextHeight e)
                   - widgetOffsetTop e - height (borderBBox e)
           in (topPosition, leftPosition)))"

text \<open>
  The placement rules in the words of the specification, for comparison: the overlay opens
  below the anchor when it fits above the bottom edge of the viewport and is otherwise
  moved up by its own height; in left-to-right mode an overlay that passes the right edge is
  moved left by the overflow.
\<close>

definition spec_flip_y :: "int \<Rightarrow> int \<Rightarrow> int \<Rightarrow> int \<Rightarrow> int \<Rightarrow> int" where
  "spec_flip_y anchor_y anchor_height overlay_height viewport_height scrollY =
     (if anchor_y + anchor_height + overlay_height < viewport_height + scrollY
      then anchor_y + anchor_height
      else anchor_y - overlay_height)"

definition spec_clamp_ltr_x :: "int \<Rightarrow> int \<Rightarrow> int \<Rightarrow> int \<Rightarrow> int" where
  "spec_clamp_ltr_x x overlay_width viewport_width scrollX =
     (if x + overlay_width > viewport_width + scrollX
      then x - (x + overlay_width - (viewport_width + scrollX))
      else x)"

section \<open>Note picker: pagination\<close>

text \<open>The enumeration \<open>pianoSize\<close> and its numeric values.\<close>

datatype pianoSize = small | medium | large

fun pianoSize_value :: "pianoSize \<Rightarrow> nat" where
  "pianoSize_value small = 12"
| "pianoSize_value medium = 36"
| "pianoSize_value large = 60"

text \<open>
  Reading a property of \<open>undefined\<close>, as in \<open>piano[k].setVisible(...)\<close> with \<open>k\<close>
  outside the array, throws a \<open>TypeError\<close>.
\<close>

datatype js_error = TypeError

text \<open>The decimal text that string concatenation gives an integer.\<close>

definition digit_char :: "nat \<Rightarrow> char" where
  "digit_char d = ''0123456789'' ! d"

fun decimal_of_nat :: "nat \<Rightarrow> string" where
  "decimal_of_nat n =
     (let d = digit_char (n mod 10)
      in if n div 10 = 0 then [d] else decimal_of_nat (n div 10) @ [d])"

definition decimal_of_int :: "int \<Rightarrow> string" where
  "decimal_of_int k =
     (if 0 \<le> k then decimal_of_nat (nat k) else CHR ''-'' # decimal_of_nat (nat (- k)))"

text \<open>
  The variables the two pagination listeners of \<open>FieldNote.prototype.showEditor_\<close> close
  over: \<open>currentPage\<close>, \<open>Npages\<close>, the visibility of each key of \<open>piano\<close>, and
  \<open>scriptLabel.innerText\<close>.
\<close>

record pager =
  currentPage :: int
  Npages :: int
  piano_visible :: "bool list"
  labelText :: string

text \<open>
  \<open>for (var i = 0; i < 12; i++) piano[i + firstKey].setVisible(v)\<close>, over the list of
  the values of \<open>i\<close>.  A throw ends the listener; the model then returns the error alone.
\<close>

fun setVisible_block :: "nat list \<Rightarrow> int \<Rightarrow> bool \<Rightarrow> bool list \<Rightarrow> js_error + bool list" where
  "setVisible_block [] firstKey v piano = Inr piano"
| "setVisible_block (i # is) firstKey v piano =
     (let k = int i + firstKey
      in if 0 \<le> k \<and> k < int (length piano)
         then setVisible_block is firstKey v (piano[nat k := v])
         else Inl TypeError)"

definition octaveLabel :: "int \<Rightarrow> string" where
  "octaveLabel page = ''Octave #'' @ decimal_of_int (page + 1)"

text \<open>The \<open>MOUSEDOWN\<close> listener of \<open>prevButton\<close>.\<close>

definition prevButton_MOUSEDOWN :: "pager \<Rightarrow> js_error + pager" where
  "prevButton_MOUSEDOWN s =
     (if currentPage s = 0 then Inr (s\<lparr>labelText := octaveLabel (currentPage s)\<rparr>)
      else
        (let curFirstKey = currentPage s * 12;
             newFirstKey = currentPage s * 12 - 12
         in case setVisible_block [0..<12] curFirstKey False (piano_visible s) of
              Inl err \<Rightarrow> Inl err
            | Inr piano1 \<Rightarrow>
                (case setVisible_block [0..<12] newFirstKey True piano1 of
                   Inl err \<Rightarrow> Inl err
                 | Inr piano2 \<Rightarrow>
                     Inr (s\<lparr>piano_visible := piano2,
                            currentPage := currentPage s - 1,
                            labelText := octaveLabel (currentPage s - 1)\<rparr>))))"

text \<open>The \<open>MOUSEDOWN\<close> listener of \<open>nextButton\<close>.\<close>

definition nextButton_MOUSEDOWN :: "pager \<Rightarrow> js_error + pager" where
  "nextButton_MOUSEDOWN s =
     (if currentPage s = Npages s - 1 then Inr (s\<lparr>labelText := octaveLabel (currentPage s)\<rparr>)
      else
        (let curFirstKey = currentPage s * 12;
             newFirstKey = currentPage s * 12 + 12
         in case setVisible_block [0..<12] curFirstKey False (piano_visible s) of
              Inl err \<Rightarrow> Inl err
            | Inr piano1 \<Rightarrow>
                (case setVisible_block [0..<12] newFirstKey True piano1 of
                   Inl err \<Rightarrow> Inl err
                 | Inr piano2 \<Rightarrow>
                     Inr (s\<lparr>piano_visible := piano2,
                            currentPage := currentPage s + 1,
                            labelText := octaveLabel (currentPage s + 1)\<rparr>))))"

text \<open>
  The state in which \<open>showEditor_\<close> leaves these variables when \<open>pagination\<close> is true:
  every key is rendered, the keys with \<open>i > 11\<close> are hidden, the label reads
  \<open>Octave #1\<close>, \<open>Npages = nKeys_ / 12\<close> (an exact quotient for the three sizes) and
  \<open>currentPage = 0\<close>.
\<close>

definition pagination_init :: "pianoSize \<Rightarrow> pager" where
  "pagination_init sz =
     \<lparr>currentPage = 0,
      Npages = int (pianoSize_value sz) div 12,
      piano_visible = map (\<lambda>i. \<not> i > 11) [0..<pianoSize_value sz],
      labelText = ''Octave #1''\<rparr>"

text \<open>
  The \<open>MOUSEOVER\<close> listener of a key, as far as it touches these variables: it writes
  the id of the key, which is its note name, into the same label.
\<close>

definition key_MOUSEOVER :: "string \<Rightarrow> pager \<Rightarrow> pager" where
  "key_MOUSEOVER keyId s = s\<lparr>labelText := keyId\<rparr>"

text \<open>
  A sequence of events on the paginated piano: presses of the two buttons and the mouse
  moving over a key.  A throw in one listener ends the run.
\<close>

datatype page_button = PrevButton | NextButton | KeyMouseOver string

fun press :: "page_button \<Rightarrow> pager \<Rightarrow> js_error + pager" where
  "press PrevButton s = prevButton_MOUSEDOWN s"
| "press NextButton s = nextButton_MOUSEDOWN s"
| "press (KeyMouseOver keyId) s = Inr (key_MOUSEOVER keyId s)"

fun presses :: "page_button list \<Rightarrow> pager \<Rightarrow> js_error + pager" where
  "presses [] s = Inr s"
| "presses (b # bs) s = (case press b s of Inl err \<Rightarrow> Inl err | Inr s' \<Rightarrow> presses bs s')"

text \<open>
  The invariant of the pagination: the page is in range, the piano has twelve keys for each
  page, and exactly the keys of the current page are visible.
\<close>

definition page_inv :: "pager \<Rightarrow> bool" where
  "page_inv s \<longleftrightarrow> 0 \<le> currentPage s \<and> currentPage s < Npages s \<and>
     int (length (piano_visible s)) = 12 * Npages s \<and>
     (\<forall>i < length (piano_visible s). piano_visible s ! i \<longleftrightarrow> int i div 12 = currentPage s)"

section \<open>JavaScript values\<close>

text \<open>
  Numbers that may be \<open>NaN\<close> or infinite, and the primitive values a configuration key
  or a field value can hold.
\<close>

datatype jsnum = NaN | NegInf | Fin real | PosInf

datatype jsval = JUndefined | JNull | JBool bool | JNum jsnum | JStr string

text \<open>Truthiness, as \<open>||\<close>, \<open>&&\<close> and \<open>if\<close> test it.\<close>

fun truthy :: "jsval \<Rightarrow> bool" where
  "truthy JUndefined = False"
| "truthy JNull = False"
| "truthy (JBool b) = b"
| "truthy (JNum n) = (n \<noteq> NaN \<and> n \<noteq> Fin 0)"
| "truthy (JStr s) = (s \<noteq> [])"

text \<open>\<open>a || b\<close> on values.\<close>

definition js_or :: "jsval \<Rightarrow> jsval \<Rightarrow> jsval" where
  "js_or a b = (if truthy a then a else b)"

text \<open>
  \<open>v == 'true'\<close>.  A string is compared as a string; a number or a boolean is compared
  with the number the string \<open>'true'\<close> converts to, which is \<open>NaN\<close> and equals nothing;
  \<open>null\<close> and \<open>undefined\<close> equal only each other.
\<close>

fun loose_eq_true :: "jsval \<Rightarrow> bool" where
  "loose_eq_true (JStr s) = (s = ''true'')"
| "loose_eq_true v = False"

text \<open>
  \<open>parseInt(v) || d\<close>, on the result of \<open>parseInt\<close> (\<open>None\<close> for \<open>NaN\<close>): \<open>NaN\<close>
  and 0 are falsy.
\<close>

definition int_or :: "int option \<Rightarrow> int \<Rightarrow> int" where
  "int_or n d = (case n of None \<Rightarrow> d | Some k \<Rightarrow> if k = 0 then d else k)"

section \<open>Flyout button\<close>

text \<open>
  The target workspace, as far as the button uses it: \<open>getButtonCallback\<close>, which takes
  the value of the \<open>callbackkey\<close> attribute (\<open>None\<close> for \<open>null\<close>) and returns a
  callback or \<open>null\<close>.  The function is defined outside the sources and is a parameter.
\<close>

record 'cb workspace =
  getButtonCallback :: "string option \<Rightarrow> 'cb option"

text \<open>The XML element, as far as the button reads it: \<open>getAttribute\<close>.\<close>

type_synonym xml = "string \<Rightarrow> string option"

text \<open>The fields of \<open>Blockly.FlyoutButton\<close> that its constructor sets.\<close>

record 'cb flyout_button =
  fb_targetWorkspace :: "'cb workspace option"
  fb_text :: "string option"
  fb_isLabel :: bool
  fb_callback :: "'cb option"
  fb_cssClass :: "string option"
  fb_icon :: "string option"
  fb_iconClass :: "string option"
  fb_iconColor :: "string option"
  fb_line :: "string option"
  fb_lineWidth :: "string option"

text \<open>An attribute value as a condition: \<open>null\<close> and the empty string are falsy.\<close>

fun attr_truthy :: "string option \<Rightarrow> bool" where
  "attr_truthy None = False"
| "attr_truthy (Some s) = (s \<noteq> [])"

text \<open>\<open>xml.getAttribute(name) || null\<close>.\<close>

definition attr_or_null :: "string option \<Rightarrow> string option" where
  "attr_or_null a = (if attr_truthy a then a else None)"

text \<open>A string or \<open>null\<close> appended to a string.\<close>

definition concat_text :: "string \<Rightarrow> string option \<Rightarrow> string" where
  "concat_text s t = s @ (case t of None \<Rightarrow> ''null'' | Some u \<Rightarrow> u)"

text \<open>
  The constructor \<open>Blockly.FlyoutButton\<close>: the new button and the messages passed to
  \<open>console.warn\<close>.
\<close>

definition FlyoutButton :: "'cb workspace \<Rightarrow> xml \<Rightarrow> bool \<Rightarrow> 'cb flyout_button \<times> string list" where
  "FlyoutButton targetWorkspace xml isLabel =
     (let text = xml ''text'';
          callbackKey = xml ''callbackkey'';
          (callback, warnings) =
            (if isLabel \<and> attr_truthy callbackKey
             then (None, [concat_text ''Labels should not have callbacks. Label text: '' text])
             else if \<not> isLabel \<and>
                     \<not> (attr_truthy callbackKey \<and> getButtonCallback targetWorkspace callbackKey \<noteq> None)
             then (None, [concat_text ''Buttons should have callbacks. Button text: '' text])
             else (getButtonCallback targetWorkspace callbackKey, []))
      in (\<lparr>fb_targetWorkspace = Some targetWorkspace,
            fb_text = text,
            fb_isLabel = isLabel,
            fb_callback = callback,
            fb_cssClass = attr_or_null (xml ''web-class''),
            fb_icon = attr_or_null (xml ''web-icon''),
            fb_iconClass = attr_or_null (xml ''web-icon-class''),
            fb_iconColor = attr_or_null (xml ''web-icon-color''),
            fb_line = attr_or_null (xml ''web-line''),
            fb_lineWidth = attr_or_null (xml ''web-line-width'')\<rparr>,
          warnings))"

text \<open>
  \<open>Blockly.FlyoutButton.prototype.onMouseUp_\<close>: the calls it makes, in order.  The flag
  \<open>gesture\<close> says whether \<open>getGesture(e)\<close> returns a gesture.  After \<open>dispose\<close> the
  target workspace is \<open>null\<close> and the first statement throws.
\<close>

datatype 'cb button_call = CancelGesture | CallCallback 'cb

definition onMouseUp :: "'cb flyout_button \<Rightarrow> bool \<Rightarrow> js_error + 'cb button_call list" where
  "onMouseUp b gesture =
     (case fb_targetWorkspace b of
        None \<Rightarrow> Inl TypeError
      | Some w \<Rightarrow>
          Inr ((if gesture then [CancelGesture] else []) @
               (case fb_callback b of None \<Rightarrow> [] | Some cb \<Rightarrow> [CallCallback cb])))"

section \<open>Grid picker\<close>

text \<open>
  The configuration object \<open>params\<close>, and the \<open>tooltipConfig_\<close> the constructor builds
  from it.
\<close>

record gridpicker_params =
  columns :: jsval
  maxRows :: jsval
  width_px :: jsval
  itemColour :: jsval
  tooltips :: jsval
  tooltipsXOffset :: jsval
  tooltipsYOffset :: jsval

record tooltipCfg =
  enabled :: bool
  xOffset :: int
  yOffset :: int

text \<open>
  An option's content is a text or an image description; a tooltip is made for an element of
  the menu with the text \<open>options[i][0].alt || options[i][0]\<close>.
\<close>

datatype content = Text string | Image "string option"

record 'e tooltip =
  tip_element :: 'e
  tip_text :: content
  tip_showDelayMs :: int

text \<open>
  The fields of \<open>FieldGridPicker\<close>; \<open>inherited\<close> is the state of the
  \<open>Blockly.FieldDropdown\<close> it extends, and \<open>disposedTooltips\<close> records the tooltips on
  which \<open>dispose()\<close> has been called, in order.  The background colour, computed with
  \<open>Blockly.hueToRgb\<close>, is left out.
\<close>

record ('e, 'b) gridpicker =
  tooltips_list :: "'e tooltip list"
  disposedTooltips :: "'e tooltip list"
  columns_n :: int
  maxRows_n :: int
  width_n :: int
  itemColour_v :: jsval
  tooltipConfig :: tooltipCfg
  inherited :: 'b

text \<open>
  The constructor: \<open>parseInt\<close> is the built-in function, \<open>None\<close> for \<open>NaN\<close>, and
  \<open>super_new\<close> the state the inherited constructor returns.
\<close>

definition FieldGridPicker ::
  "(jsval \<Rightarrow> int option) \<Rightarrow> 'b \<Rightarrow> gridpicker_params \<Rightarrow> ('e, 'b) gridpicker" where
  "FieldGridPicker parseInt super_new params =
     (let tooltipCfg =
            \<lparr>enabled = (loose_eq_true (tooltips params) \<or> True),
             xOffset = int_or (parseInt (tooltipsXOffset params)) 15,
             yOffset = int_or (parseInt (tooltipsYOffset params)) (- 10)\<rparr>
      in \<lparr>tooltips_list = [],
          disposedTooltips = [],
          columns_n = int_or (parseInt (columns params)) 4,
          maxRows_n = int_or (parseInt (maxRows params)) 0,
          width_n = int_or (parseInt (width_px params)) 400,
          itemColour_v = js_or (itemColour params) (JStr ''#fff''),
          tooltipConfig = tooltipCfg,
          inherited = super_new\<rparr>)"

text \<open>\<open>FieldGridPicker.prototype.disposeTooltips\<close>.\<close>

definition disposeTooltips :: "('e, 'b) gridpicker \<Rightarrow> ('e, 'b) gridpicker" where
  "disposeTooltips g =
     (if length (tooltips_list g) \<noteq> 0
      then g\<lparr>disposedTooltips := disposedTooltips g @ tooltips_list g, tooltips_list := []\<rparr>
      else g)"

text \<open>
  \<open>FieldGridPicker.prototype.dispose\<close>; \<open>super_dispose\<close> is the inherited
  \<open>dispose\<close>, which is outside the sources.
\<close>

definition dispose :: "('b \<Rightarrow> 'b) \<Rightarrow> ('e, 'b) gridpicker \<Rightarrow> ('e, 'b) gridpicker" where
  "dispose super_dispose g = disposeTooltips (g\<lparr>inherited := super_dispose (inherited g)\<rparr>)"

text \<open>\<open>options[i][0].alt || options[i][0]\<close>.\<close>

fun tooltip_content :: "content \<Rightarrow> content" where
  "tooltip_content (Text s) = Text s"
| "tooltip_content (Image alt) = (if attr_truthy alt then Text (the alt) else Image alt)"

text \<open>
  The loop of \<open>showEditor_\<close> that adds the tooltips, over the elements of
  \<open>menuItemsDom\<close> from index \<open>i\<close> on.  Reading \<open>options[i][0]\<close> past the end of
  \<open>options\<close> throws.
\<close>

fun addTooltips ::
  "'e list \<Rightarrow> nat \<Rightarrow> (content \<times> 'v) list \<Rightarrow> ('e, 'b) gridpicker \<Rightarrow> js_error + ('e, 'b) gridpicker" where
  "addTooltips [] i options g = Inr g"
| "addTooltips (elem # elems) i options g =
     (if enabled (tooltipConfig g) then
        (if i < length options then
           addTooltips elems (Suc i) options
             (g\<lparr>tooltips_list := tooltips_list g @
                 [\<lparr>tip_element = elem, tip_text = tooltip_content (fst (options ! i)),
                   tip_showDelayMs = 0\<rparr>]\<rparr>)
         else Inl TypeError)
      else addTooltips elems (Suc i) options g)"

text \<open>
  The tooltips of \<open>showEditor_\<close>: the old ones are disposed, then one is added for each
  element of \<open>menuItemsDom\<close>.
\<close>

definition showEditor_tooltips ::
  "'e list \<Rightarrow> (content \<times> 'v) list \<Rightarrow> ('e, 'b) gridpicker \<Rightarrow> js_error + ('e, 'b) gridpicker" where
  "showEditor_tooltips menuItemsDom options g = addTooltips menuItemsDom 0 options (disposeTooltips g)"

section \<open>Note field\<close>

text \<open>
  The built-in conversions the note field calls.  They are outside the sources and are
  parameters of the model: \<open>parseFloat\<close> and \<open>Number\<close> on a string, \<open>String\<close> on a
  number, and \<open>toFixed(2)\<close>.
\<close>

record builtins =
  js_parseFloat :: "string \<Rightarrow> jsnum"
  js_Number :: "string \<Rightarrow> jsnum"
  js_String :: "jsnum \<Rightarrow> string"
  js_toFixed2 :: "jsnum \<Rightarrow> string"

text \<open>\<open>String(v)\<close> on a value.\<close>

fun to_string :: "builtins \<Rightarrow> jsval \<Rightarrow> string" where
  "to_string B JUndefined = ''undefined''"
| "to_string B JNull = ''null''"
| "to_string B (JBool b) = (if b then ''true'' else ''false'')"
| "to_string B (JNum n) = js_String B n"
| "to_string B (JStr s) = s"

text \<open>\<open>isNaN\<close>, \<open>a < b\<close>, \<open>a - b\<close> and \<open>Math.abs\<close> on numbers.\<close>

definition js_isNaN :: "jsnum \<Rightarrow> bool" where
  "js_isNaN n = (n = NaN)"

fun js_lt :: "jsnum \<Rightarrow> jsnum \<Rightarrow> bool" where
  "js_lt NaN b = False"
| "js_lt a NaN = False"
| "js_lt PosInf b = False"
| "js_lt a NegInf = False"
| "js_lt NegInf b = True"
| "js_lt a PosInf = True"
| "js_lt (Fin a) (Fin b) = (a < b)"

fun js_sub :: "jsnum \<Rightarrow> jsnum \<Rightarrow> jsnum" where
  "js_sub NaN b = NaN"
| "js_sub a NaN = NaN"
| "js_sub PosInf PosInf = NaN"
| "js_sub NegInf NegInf = NaN"
| "js_sub PosInf b = PosInf"
| "js_sub NegInf b = NegInf"
| "js_sub (Fin a) PosInf = NegInf"
| "js_sub (Fin a) NegInf = PosInf"
| "js_sub (Fin a) (Fin b) = Fin (a - b)"

fun js_abs :: "jsnum \<Rightarrow> jsnum" where
  "js_abs NaN = NaN"
| "js_abs NegInf = PosInf"
| "js_abs PosInf = PosInf"
| "js_abs (Fin a) = Fin \<bar>a\<bar>"

text \<open>
  The fields of \<open>FieldNote\<close> that the claims are about: \<open>note_\<close>, \<open>text_\<close>,
  \<open>nKeys_\<close>, \<open>eps_\<close>, \<open>noteFreq_\<close>, \<open>noteName_\<close>, whether \<open>sourceBlock_\<close> is
  set, and, of \<open>Blockly.Events\<close>, whether events are enabled and the change events fired
  so far, each with its old and its new value.
\<close>

record fieldnote =
  fn_note :: string
  fn_text :: string
  fn_nKeys :: pianoSize
  fn_eps :: real
  fn_noteFreq :: "real list"
  fn_noteName :: "string list"
  fn_sourceBlock :: bool
  events_enabled :: bool
  events_fired :: "(string \<times> string) list"

text \<open>\<open>FieldNote.prototype.setNumberOfKeys\<close>.\<close>

definition setNumberOfKeys :: "nat \<Rightarrow> fieldnote \<Rightarrow> fieldnote" where
  "setNumberOfKeys sz s =
     (if sz \<noteq> pianoSize_value small \<and> sz \<noteq> pianoSize_value medium \<and> sz \<noteq> pianoSize_value large
      then s
      else s\<lparr>fn_nKeys := (if sz = pianoSize_value small then small
                           else if sz = pianoSize_value medium then medium else large)\<rparr>)"

text \<open>\<open>FieldNote.prototype.nextNote_\<close>.\<close>

definition nextNote :: "string \<Rightarrow> string" where
  "nextNote note =
     (if note = ''A#'' then ''B''
      else if note = ''B'' then ''C''
      else if note = ''C#'' then ''D''
      else if note = ''D#'' then ''E''
      else if note = ''E'' then ''F''
      else if note = ''F#'' then ''G''
      else if note = ''G#'' then ''A''
      else note @ ''#'')"

text \<open>
  \<open>FieldNote.prototype.nextNotePrefix_\<close>; the prefix is a string or, when no case
  matches, \<open>undefined\<close> (\<open>None\<close>).
\<close>

definition nextNotePrefix :: "pianoSize \<Rightarrow> string option \<Rightarrow> string option" where
  "nextNotePrefix nKeys prefix =
     (if prefix = Some ''Deep'' then Some ''Low''
      else if prefix = Some ''Low'' then Some ''Middle''
      else if prefix = Some ''Middle'' then (if nKeys = medium then Some ''High'' else Some ''Tenor'')
      else if prefix = Some ''Tenor'' then Some ''High''
      else None)"

definition prefix_text :: "string option \<Rightarrow> string" where
  "prefix_text prefix = (case prefix of None \<Rightarrow> ''undefined'' | Some p \<Rightarrow> p)"

text \<open>
  The frequency of a piano key, \<open>Math.pow(2, (keyNumber - 49) / 12) * 440\<close>.
\<close>

definition keyFrequency :: "int \<Rightarrow> real" where
  "keyFrequency keyNumber = 2 powr ((real_of_int keyNumber - 49) / 12) * 440"

text \<open>
  The loop of \<open>FieldNote.prototype.createNotesArray_\<close>, over the list of the values of
  \<open>i\<close>, with the variables \<open>prefix\<close>, \<open>curNote\<close>, \<open>keyNumber\<close> and the two arrays.
\<close>

fun notes_loop ::
  "pianoSize \<Rightarrow> nat list \<Rightarrow> string option \<Rightarrow> string \<Rightarrow> int \<Rightarrow> string list \<times> real list \<Rightarrow>
   string list \<times> real list" where
  "notes_loop nKeys [] prefix curNote keyNumber arrays = arrays"
| "notes_loop nKeys (i # is) prefix curNote keyNumber (noteName, noteFreq) =
     (let noteName = noteName @ [prefix_text prefix @ '' '' @ curNote];
          curFreq = keyFrequency keyNumber;
          noteFreq = noteFreq @ [curFreq];
          curNote = nextNote curNote;
          prefix = (if (i + 1) mod 12 = 0 then nextNotePrefix nKeys prefix else prefix)
      in notes_loop nKeys is prefix curNote (keyNumber + 1) (noteName, noteFreq))"

text \<open>The start key and the first prefix that the \<open>switch\<close> selects.\<close>

fun startKey :: "pianoSize \<Rightarrow> int" where
  "startKey small = 40"
| "startKey medium = 28"
| "startKey large = 16"

fun startPrefix :: "pianoSize \<Rightarrow> string option" where
  "startPrefix small = Some ''''"
| "startPrefix medium = Some ''Low''"
| "startPrefix large = Some ''Deep''"

text \<open>\<open>FieldNote.prototype.createNotesArray_\<close>.\<close>

definition createNotesArray :: "fieldnote \<Rightarrow> fieldnote" where
  "createNotesArray s =
     (let (noteName, noteFreq) =
            notes_loop (fn_nKeys s) [0..<pianoSize_value (fn_nKeys s)]
              (startPrefix (fn_nKeys s)) ''C'' (startKey (fn_nKeys s))
              (fn_noteName s, fn_noteFreq s)
      in s\<lparr>fn_noteName := noteName, fn_noteFreq := noteFreq\<rparr>)"

text \<open>
  \<open>noteFreq_[i]\<close> and \<open>noteName_[i]\<close>: past the end of the array the read gives
  \<open>undefined\<close>, which is \<open>NaN\<close> as a number.
\<close>

definition freq_at :: "real list \<Rightarrow> nat \<Rightarrow> jsnum" where
  "freq_at noteFreq i = (if i < length noteFreq then Fin (noteFreq ! i) else NaN)"

definition name_at :: "string list \<Rightarrow> nat \<Rightarrow> jsval" where
  "name_at noteName i = (if i < length noteName then JStr (noteName ! i) else JUndefined)"

text \<open>The test \<open>Math.abs(this.noteFreq_[i] - Number(note)) < this.eps_\<close>.\<close>

definition near_note :: "real list \<Rightarrow> jsnum \<Rightarrow> real \<Rightarrow> nat \<Rightarrow> bool" where
  "near_note noteFreq n eps i = js_lt (js_abs (js_sub (freq_at noteFreq i) n)) (Fin eps)"

text \<open>
  The loop of \<open>FieldNote.prototype.getNoteName_\<close>: the value returned from inside the
  loop, if any.
\<close>

fun noteName_loop :: "nat list \<Rightarrow> real list \<Rightarrow> string list \<Rightarrow> jsnum \<Rightarrow> real \<Rightarrow> jsval option" where
  "noteName_loop [] noteFreq noteName n eps = None"
| "noteName_loop (i # is) noteFreq noteName n eps =
     (if near_note noteFreq n eps i then Some (name_at noteName i)
      else noteName_loop is noteFreq noteName n eps)"

text \<open>\<open>FieldNote.prototype.getNoteName_\<close>.\<close>

definition getNoteName :: "builtins \<Rightarrow> fieldnote \<Rightarrow> jsval" where
  "getNoteName B s =
     (let note = fn_note s;
          text = note
      in case noteName_loop [0..<pianoSize_value (fn_nKeys s)] (fn_noteFreq s) (fn_noteName s)
                (js_Number B note) (fn_eps s) of
           Some name \<Rightarrow> name
         | None \<Rightarrow> JStr (if \<not> js_isNaN (js_Number B note) then text @ '' Hz'' else text))"

text \<open>\<open>FieldNote.prototype.getText\<close>.\<close>

definition getText :: "builtins \<Rightarrow> fieldnote \<Rightarrow> string" where
  "getText B s = js_toFixed2 B (js_Number B (fn_note s))"

text \<open>
  \<open>FieldNote.prototype.setText\<close>.  \<open>Blockly.Field.prototype.setText\<close> is outside the
  sources: it is the parameter \<open>super_setText\<close>, which gives the new \<open>text_\<close> from the
  text passed and the old \<open>text_\<close>.
\<close>

definition setText :: "builtins \<Rightarrow> (jsval \<Rightarrow> string \<Rightarrow> string) \<Rightarrow> jsval \<Rightarrow> fieldnote \<Rightarrow> fieldnote" where
  "setText B super_setText newText s =
     (if newText = JNull then s
      else
        (let newText = JStr (to_string B newText);
             newText = (if \<not> js_isNaN (js_Number B (to_string B newText)) then getNoteName B s
                        else newText)
         in if newText = JStr (fn_text s) then s
            else s\<lparr>fn_text := super_setText newText (fn_text s)\<rparr>))"

text \<open>\<open>FieldNote.prototype.setValue\<close>.\<close>

definition setValue :: "builtins \<Rightarrow> (jsval \<Rightarrow> string \<Rightarrow> string) \<Rightarrow> jsval \<Rightarrow> fieldnote \<Rightarrow> fieldnote" where
  "setValue B super_setText note s =
     (let note = js_String B (js_parseFloat B (to_string B (js_or note (JStr ''0''))))
      in if js_isNaN (js_Number B note) \<or> js_lt (js_Number B note) (Fin 0) then s
         else
           (let s1 = (if fn_sourceBlock s \<and> events_enabled s \<and> fn_note s \<noteq> note
                      then s\<lparr>events_fired := events_fired s @ [(fn_note s, note)]\<rparr>
                      else s);
                s2 = s1\<lparr>fn_note := note\<rparr>
            in setText B super_setText (getNoteName B s2) s2))"

text \<open>
  \<open>FieldNote.prototype.classValidator\<close>: \<open>null\<close> (\<open>None\<close>) or the text of a number
  that is not negative.
\<close>

definition classValidator :: "builtins \<Rightarrow> jsval \<Rightarrow> string option" where
  "classValidator B text =
     (if text = JNull then None
      else
        (let text = JStr (to_string B text);
             n = js_parseFloat B (to_string B (js_or text (JStr ''0'')))
         in if js_isNaN n \<or> js_lt n (Fin 0) then None else Some (js_String B n)))"

text \<open>
  The display text in the words of the specification, for comparison: the name of a note
  within the tolerance, and otherwise the frequency rounded to two decimals with its unit.
\<close>

definition spec_displayText :: "builtins \<Rightarrow> fieldnote \<Rightarrow> jsval" where
  "spec_displayText B s =
     (case find (near_note (fn_noteFreq s) (js_Number B (fn_note s)) (fn_eps s))
             [0..<pianoSize_value (fn_nKeys s)] of
        Some i \<Rightarrow> name_at (fn_noteName s) i
      | None \<Rightarrow> JStr (js_toFixed2 B (js_Number B (fn_note s)) @ '' Hz''))"

section \<open>The conversions on decimal literals\<close>

text \<open>
  The built-in conversions on the plain decimal literals \<open>[+-]digits[.digits]\<close>, for the
  concrete instances below.  Exponents, white space, \<open>Infinity\<close> as a literal and the
  rounding of binary floating point are not covered: a literal stands for the decimal
  number it writes.
\<close>

definition digit_value :: "char \<Rightarrow> nat option" where
  "digit_value c = map_of (zip ''0123456789'' [0, 1, 2, 3, 4, 5, 6, 7, 8, 9]) c"

text \<open>The leading digits of a string, and the rest.\<close>

fun take_digits :: "string \<Rightarrow> nat list \<times> string" where
  "take_digits [] = ([], [])"
| "take_digits (c # cs) =
     (case digit_value c of
        None \<Rightarrow> ([], c # cs)
      | Some d \<Rightarrow> (let (ds, rest) = take_digits cs in (d # ds, rest)))"

definition digits_value :: "nat list \<Rightarrow> nat" where
  "digits_value ds = foldl (\<lambda>a d. 10 * a + d) 0 ds"

text \<open>A decimal literal without sign at the start of a string: its value and the rest.\<close>

definition read_unsigned :: "string \<Rightarrow> (real \<times> string) option" where
  "read_unsigned s =
     (let (ip, r1) = take_digits s
      in case r1 of
           c # r2 \<Rightarrow>
             (if c = CHR ''.'' then
                (let (fp, r3) = take_digits r2
                 in if ip = [] \<and> fp = [] then None
                    else Some (real (digits_value ip) + real (digits_value fp) / 10 ^ length fp, r3))
              else if ip = [] then None else Some (real (digits_value ip), r1))
         | [] \<Rightarrow> if ip = [] then None else Some (real (digits_value ip), r1))"

definition read_signed :: "string \<Rightarrow> (real \<times> string) option" where
  "read_signed s =
     (case s of
        c # r \<Rightarrow>
          (if c = CHR ''-'' then map_option (\<lambda>(v, rest). (- v, rest)) (read_unsigned r)
           else if c = CHR ''+'' then read_unsigned r
           else read_unsigned s)
      | [] \<Rightarrow> None)"

text \<open>\<open>parseFloat\<close> reads the longest literal at the start; \<open>Number\<close> wants the whole
  string to be a literal, and gives 0 for the empty string.\<close>

definition dec_parseFloat :: "string \<Rightarrow> jsnum" where
  "dec_parseFloat s = (case read_signed s of None \<Rightarrow> NaN | Some (v, rest) \<Rightarrow> Fin v)"

definition dec_Number :: "string \<Rightarrow> jsnum" where
  "dec_Number s =
     (if s = [] then Fin 0
      else case read_signed s of
             None \<Rightarrow> NaN
           | Some (v, rest) \<Rightarrow> if rest = [] then Fin v else NaN)"

text \<open>The digits after the point of a number in \<open>[0, 1)\<close>, at most \<open>k\<close> of them.\<close>

fun fraction_digits :: "nat \<Rightarrow> real \<Rightarrow> string" where
  "fraction_digits 0 f = []"
| "fraction_digits (Suc k) f =
     (if f = 0 then []
      else (let d = nat \<lfloor>f * 10\<rfloor> in digit_char d # fraction_digits k (f * 10 - real d)))"

definition dec_String :: "jsnum \<Rightarrow> string" where
  "dec_String n =
     (case n of
        NaN \<Rightarrow> ''NaN''
      | PosInf \<Rightarrow> ''Infinity''
      | NegInf \<Rightarrow> ''-Infinity''
      | Fin r \<Rightarrow>
          (let a = \<bar>r\<bar>; ip = nat \<lfloor>a\<rfloor>; f = a - real ip
           in (if r < 0 then ''-'' else []) @ decimal_of_nat ip @
              (if f = 0 then [] else ''.'' @ fraction_digits 20 f)))"

text \<open>\<open>toFixed(2)\<close>: the nearest multiple of 1/100, the larger one on a tie.\<close>

definition dec_toFixed2 :: "jsnum \<Rightarrow> string" where
  "dec_toFixed2 n =
     (case n of
        NaN \<Rightarrow> ''NaN''
      | PosInf \<Rightarrow> ''Infinity''
      | NegInf \<Rightarrow> ''-Infinity''
      | Fin r \<Rightarrow>
          (let h = nat \<lfloor>\<bar>r\<bar> * 100 + 1 / 2\<rfloor>
           in (if r < 0 then ''-'' else []) @ decimal_of_nat (h div 100) @ ''.'' @
              [digit_char (h mod 100 div 10), digit_char (h mod 10)]))"

definition dec_builtins :: builtins where
  "dec_builtins =
     \<lparr>js_parseFloat = dec_parseFloat, js_Number = dec_Number, js_String = dec_String,
      js_toFixed2 = dec_toFixed2\<rparr>"

section \<open>Note field: construction\<close>

text \<open>
  The fields as the constructor \<open>FieldNote\<close> sets them: \<open>nKeys_\<close> is
  \<open>pianoSize.medium\<close>, \<open>eps_\<close> is 1 and the two arrays are empty.  The text that the
  inherited constructors leave in \<open>text_\<close>, whether the field is on a block and whether
  events are enabled are parameters.
\<close>

definition FieldNote :: "string \<Rightarrow> string \<Rightarrow> bool \<Rightarrow> bool \<Rightarrow> fieldnote" where
  "FieldNote note text sourceBlock eventsEnabled =
     \<lparr>fn_note = note, fn_text = text, fn_nKeys = medium, fn_eps = 1, fn_noteFreq = [],
      fn_noteName = [], fn_sourceBlock = sourceBlock, events_enabled = eventsEnabled,
      events_fired = []\<rparr>"

text \<open>
  \<open>FieldNote.prototype.init\<close>, after the inherited \<open>init\<close>: the two arrays are
  emptied and filled, and the value is set again.
\<close>

definition init :: "builtins \<Rightarrow> (jsval \<Rightarrow> string \<Rightarrow> string) \<Rightarrow> fieldnote \<Rightarrow> fieldnote" where
  "init B super_setText s =
     (let s1 = createNotesArray (s\<lparr>fn_noteFreq := [], fn_noteName := []\<rparr>)
      in setValue B super_setText (JStr (fn_note s1)) s1)"

section \<open>Note picker: tone and stop-after-idle timer\<close>

text \<open>
  The variables of \<open>Blockly.AudioContextManager\<close>: \<open>_frequency\<close>, \<open>_mute\<close>, and
  the \<open>frequency.value\<close> of \<open>_vco\<close> and the \<open>gain.value\<close> of \<open>_vca\<close> once the
  two nodes exist.  Frequencies and gains are modelled as real numbers.
\<close>

record audio_manager =
  frequency_var :: real
  mute_var :: bool
  vco_frequency :: "real option"
  vca_gain :: "real option"

text \<open>\<open>AudioContextManager.stop\<close>.\<close>

definition stop :: "audio_manager \<Rightarrow> audio_manager" where
  "stop a =
     (let a1 = (if vca_gain a \<noteq> None then a\<lparr>vca_gain := Some 0\<rparr> else a)
      in a1\<lparr>frequency_var := 0\<rparr>)"

text \<open>
  \<open>AudioContextManager.tone\<close>.  Whether \<open>context()\<close> returns an audio context and
  whether the two nodes can be created depend on the browser: they are the parameters
  \<open>has_context\<close> and \<open>nodes_ok\<close>.
\<close>

definition tone :: "bool \<Rightarrow> bool \<Rightarrow> real \<Rightarrow> real \<Rightarrow> audio_manager \<Rightarrow> audio_manager" where
  "tone has_context nodes_ok frequency gain a =
     (if mute_var a then a
      else if frequency \<le> 0 then a
      else
        (let a1 = a\<lparr>frequency_var := frequency\<rparr>
         in if \<not> has_context then a1
            else
              (let gain = max 0 (min 1 gain)
               in if vco_frequency a1 = None \<and> \<not> nodes_ok
                  then a1\<lparr>vco_frequency := None, vca_gain := None\<rparr>
                  else a1\<lparr>vco_frequency := Some frequency, vca_gain := Some gain\<rparr>)))"

text \<open>
  What the key listeners and their timeouts share: \<open>soundingKeys_\<close> of each note field
  (fields are numbered), the audio manager, which all fields share, and the pending
  timeouts, oldest first, each with the field and the value of \<open>cnt\<close> its callback has
  captured.  All timeouts have the same delay of 500 ms and so fire in the order in which
  they were set.
\<close>

record note_audio =
  soundingKeys :: "nat \<Rightarrow> int"
  manager :: audio_manager
  timeouts :: "(nat \<times> int) list"

text \<open>
  The \<open>MOUSEDOWN\<close> listener of a key of field \<open>fld\<close>, as far as it touches these
  variables: \<open>stop()\<close>, \<open>cnt = ++soundingKeys_\<close>, \<open>tone(freq, 1)\<close> and
  \<open>setTimeout\<close>.  The statements in between change the highlighted key, the value and
  the text of the field.
\<close>

definition key_MOUSEDOWN :: "bool \<Rightarrow> bool \<Rightarrow> nat \<Rightarrow> real \<Rightarrow> note_audio \<Rightarrow> note_audio" where
  "key_MOUSEDOWN has_context nodes_ok fld freq s =
     (let a = stop (manager s);
          cnt = soundingKeys s fld + 1;
          a = tone has_context nodes_ok freq 1 a
      in s\<lparr>soundingKeys := (soundingKeys s)(fld := cnt),
           manager := a,
           timeouts := timeouts s @ [(fld, cnt)]\<rparr>)"

text \<open>The callback passed to \<open>setTimeout\<close>.\<close>

definition timeout_callback :: "nat \<Rightarrow> int \<Rightarrow> note_audio \<Rightarrow> note_audio" where
  "timeout_callback fld cnt s =
     (if soundingKeys s fld = cnt then s\<lparr>manager := stop (manager s)\<rparr> else s)"

text \<open>
  The events: \<open>showEditor_\<close> of a field, which sets its \<open>soundingKeys_\<close> to 0; a
  mouse-down on a key of a field; and the oldest pending timeout firing.
\<close>

datatype note_event = ShowEditor nat | KeyMouseDown nat real | TimeoutFires

fun note_step :: "bool \<Rightarrow> bool \<Rightarrow> note_event \<Rightarrow> note_audio \<Rightarrow> note_audio" where
  "note_step hc ok (ShowEditor fld) s = s\<lparr>soundingKeys := (soundingKeys s)(fld := 0)\<rparr>"
| "note_step hc ok (KeyMouseDown fld freq) s = key_MOUSEDOWN hc ok fld freq s"
| "note_step hc ok TimeoutFires s =
     (case timeouts s of
        [] \<Rightarrow> s
      | (fld, cnt) # rest \<Rightarrow> timeout_callback fld cnt (s\<lparr>timeouts := rest\<rparr>))"

fun note_run :: "bool \<Rightarrow> bool \<Rightarrow> note_event list \<Rightarrow> note_audio \<Rightarrow> note_audio" where
  "note_run hc ok [] s = s"
| "note_run hc ok (e # es) s = note_run hc ok es (note_step hc ok e s)"

text \<open>The state before any editor is opened: every counter is 0 and no tone has played.\<close>

definition note_audio_start :: note_audio where
  "note_audio_start =
     \<lparr>soundingKeys = (\<lambda>fld. 0),
      manager = \<lparr>frequency_var = 0, mute_var = False, vco_frequency = None, vca_gain = None\<rparr>,
      timeouts = []\<rparr>"

section \<open>Properties of the overlay placement\<close>

lemma gridPicker_position_y:
  "coord_y (gridPicker_position ov rtl a S B W off) =
     (if coord_y a + height B + height S < height W + coord_y off
      then coord_y a + height B
      else coord_y a - height S - 2)"
  by (simp add: gridPicker_position_def Let_def)

lemma gridPicker_position_x:
  "coord_x (gridPicker_position ov rtl a S B W off) =
     (if rtl then max (coord_x a + width B + ov) (coord_x off + width S)
      else min (coord_x a - ov) (width W + coord_x off - width S))"
  by (simp add: gridPicker_position_def Let_def max_def min_def)

lemma notePicker_position_top:
  "fst (notePicker_position e) =
     (if mobile e
      then height (windowSize e) - (keyHeight e + labelHeight e + prevNextHeight e)
             - widgetOffsetTop e - height (borderBBox e)
      else if coord_y (xy e) + height (borderBBox e) + (keyHeight e + divScrollHeight e + 5)
                < height (windowSize e) + coord_y (scrollOffset e)
      then 0
      else - (keyHeight e + divScrollHeight e + 5 + height (borderBBox e)))"
  by (simp add: notePicker_position_def Let_def)

lemma notePicker_position_left:
  "snd (notePicker_position e) =
     (if mobile e then - widgetOffsetLeft e
      else if RTL e then
        (if coord_x (xy e) + width (borderBBox e) - pianoWidth e < coord_x (scrollOffset e)
         then coord_x (scrollOffset e) - (coord_x (xy e) + width (borderBBox e) - pianoWidth e)
         else width (borderBBox e) - pianoWidth e)
      else
        (if coord_x (xy e) + pianoWidth e > width (windowSize e) + coord_x (scrollOffset e)
         then - (coord_x (xy e) + pianoWidth e - (width (windowSize e) + coord_x (scrollOffset e)) + 30)
         else 0))"
  by (simp add: notePicker_position_def Let_def)

text \<open>
  C1, as stated, fails: with the anchor at \<open>y = 100\<close>, height 20, a menu of height 200 and
  a viewport of height 250, the grid picker flips the menu to \<open>y = -102\<close>, two pixels above
  the \<open>100 - 200\<close> of the claim.
\<close>

theorem C1_flip_counterexample:
  "coord_y (gridPicker_position 25 False \<lparr>coord_x = 0, coord_y = 100\<rparr>
      \<lparr>width = 400, height = 200\<rparr> \<lparr>width = 60, height = 20\<rparr>
      \<lparr>width = 1000, height = 250\<rparr> \<lparr>coord_x = 0, coord_y = 0\<rparr>)
   \<noteq> spec_flip_y 100 20 200 250 0"
  by (simp add: gridPicker_position_def spec_flip_y_def Let_def)

text \<open>
  C1, amended.  Grid picker: when \<open>A.y + A.height + S.height < viewport.height + scrollY\<close>
  the menu opens below the anchor, at \<open>y = A.y + A.height\<close>; otherwise it is flipped once,
  to \<open>y = A.y - S.height - 2\<close>.  Note picker, outside mobile mode: under the same test
  with \<open>S.height = keyHeight + div.scrollHeight + 5\<close> the piano keeps the top offset 0
  inside the widget div, and otherwise gets the top offset \<open>-(S.height + A.height)\<close>;
  in mobile mode no flip test is made and the piano is docked to the bottom of the viewport.
\<close>

theorem C1_vertical_flip:
  "coord_y (gridPicker_position ov rtl a S B W off) =
     (if coord_y a + height B + height S < height W + coord_y off
      then coord_y a + height B
      else coord_y a - height S - 2)
   \<and> fst (notePicker_position e) =
     (if mobile e
      then height (windowSize e) - (keyHeight e + labelHeight e + prevNextHeight e)
             - widgetOffsetTop e - height (borderBBox e)
      else if coord_y (xy e) + height (borderBBox e) + (keyHeight e + divScrollHeight e + 5)
                < height (windowSize e) + coord_y (scrollOffset e)
      then 0
      else - (keyHeight e + divScrollHeight e + 5 + height (borderBBox e)))"
  by (simp only: gridPicker_position_y notePicker_position_top)

theorem C1_vertical_flip_witness:
  "coord_y (gridPicker_position 25 False \<lparr>coord_x = 0, coord_y = 100\<rparr>
      \<lparr>width = 400, height = 200\<rparr> \<lparr>width = 60, height = 20\<rparr>
      \<lparr>width = 1000, height = 250\<rparr> \<lparr>coord_x = 0, coord_y = 0\<rparr>) = - 102
   \<and> fst (notePicker_position
        \<lparr>mobile = False, RTL = False, keyHeight = 90, labelHeight = 20, prevNextHeight = 0,
         pianoWidth = 462, divScrollHeight = 25, xy = \<lparr>coord_x = 0, coord_y = 100\<rparr>,
         borderBBox = \<lparr>width = 60, height = 20\<rparr>, windowSize = \<lparr>width = 1000, height = 200\<rparr>,
         scrollOffset = \<lparr>coord_x = 0, coord_y = 0\<rparr>, widgetOffsetLeft = 0,
         widgetOffsetTop = 100\<rparr>) = - 140"
  using C1_vertical_flip [of 25 False "\<lparr>coord_x = 0, coord_y = 100\<rparr>"
      "\<lparr>width = 400, height = 200\<rparr>" "\<lparr>width = 60, height = 20\<rparr>"
      "\<lparr>width = 1000, height = 250\<rparr>" "\<lparr>coord_x = 0, coord_y = 0\<rparr>"
      "\<lparr>mobile = False, RTL = False, keyHeight = 90, labelHeight = 20, prevNextHeight = 0,
         pianoWidth = 462, divScrollHeight = 25, xy = \<lparr>coord_x = 0, coord_y = 100\<rparr>,
         borderBBox = \<lparr>width = 60, height = 20\<rparr>, windowSize = \<lparr>width = 1000, height = 200\<rparr>,
         scrollOffset = \<lparr>coord_x = 0, coord_y = 0\<rparr>, widgetOffsetLeft = 0,
         widgetOffsetTop = 100\<rparr>"]
  by simp

text \<open>
  C7, as stated, fails: the note picker, left to right, with the anchor at \<open>x = 900\<close>, a
  piano 462 wide and a viewport 1000 wide, overflows by 362 and is moved left by 392.
\<close>

theorem C7_clamp_counterexample:
  "900 + snd (notePicker_position
        \<lparr>mobile = False, RTL = False, keyHeight = 90, labelHeight = 20, prevNextHeight = 0,
         pianoWidth = 462, divScrollHeight = 25, xy = \<lparr>coord_x = 900, coord_y = 100\<rparr>,
         borderBBox = \<lparr>width = 60, height = 20\<rparr>, windowSize = \<lparr>width = 1000, height = 800\<rparr>,
         scrollOffset = \<lparr>coord_x = 0, coord_y = 0\<rparr>, widgetOffsetLeft = 0,
         widgetOffsetTop = 100\<rparr>)
   \<noteq> spec_clamp_ltr_x 900 462 1000 0"
  by (simp add: notePicker_position_def spec_clamp_ltr_x_def Let_def)

text \<open>
  C7, amended.  Grid picker: left to right, \<open>x\<close> is first moved left by the checkmark
  overhang and, when \<open>x + S.width\<close> then exceeds \<open>viewport.width + scrollX\<close>, moved left
  by exactly the overflow; right to left, \<open>x\<close> is first moved right by the anchor's width
  and the overhang and, when \<open>x - S.width\<close> then falls left of \<open>scrollX\<close>, moved right
  by the deficit.  Note picker, outside mobile
  mode: left to right the left offset is \<open>-(overflow + 30)\<close> when the piano passes the
  right edge and 0 otherwise; right to left it is the deficit \<open>scrollX - x'\<close> of the
  mirrored \<open>x' = A.x + A.width - pianoWidth\<close> when \<open>x' < scrollX\<close>, and
  \<open>A.width - pianoWidth\<close> otherwise.  Each is a single pass whose result does not depend
  on any vertical quantity.
\<close>

theorem C7_horizontal_clamp:
  "coord_x (gridPicker_position ov rtl a S B W off) =
     (if rtl then
        (if coord_x a + width B + ov - width S < coord_x off
         then coord_x a + width B + ov + (coord_x off - (coord_x a + width B + ov - width S))
         else coord_x a + width B + ov)
      else
        (if coord_x a - ov + width S > width W + coord_x off
         then coord_x a - ov - (coord_x a - ov + width S - (width W + coord_x off))
         else coord_x a - ov))
   \<and> coord_x (gridPicker_position ov rtl (a\<lparr>coord_y := ay\<rparr>) (S\<lparr>height := sh\<rparr>)
        (B\<lparr>height := bh\<rparr>) (W\<lparr>height := wh\<rparr>) (off\<lparr>coord_y := oy\<rparr>))
     = coord_x (gridPicker_position ov rtl a S B W off)
   \<and> snd (notePicker_position e) =
     (if mobile e then - widgetOffsetLeft e
      else if RTL e then
        (if coord_x (xy e) + width (borderBBox e) - pianoWidth e < coord_x (scrollOffset e)
         then coord_x (scrollOffset e) - (coord_x (xy e) + width (borderBBox e) - pianoWidth e)
         else width (borderBBox e) - pianoWidth e)
      else
        (if coord_x (xy e) + pianoWidth e > width (windowSize e) + coord_x (scrollOffset e)
         then - (coord_x (xy e) + pianoWidth e - (width (windowSize e) + coord_x (scrollOffset e)) + 30)
         else 0))"
proof (intro conjI)
  show "coord_x (gridPicker_position ov rtl a S B W off) =
     (if rtl then
        (if coord_x a + width B + ov - width S < coord_x off
         then coord_x a + width B + ov + (coord_x off - (coord_x a + width B + ov - width S))
         else coord_x a + width B + ov)
      else
        (if coord_x a - ov + width S > width W + coord_x off
         then coord_x a - ov - (coord_x a - ov + width S - (width W + coord_x off))
         else coord_x a - ov))"
    by (simp add: gridPicker_position_x max_def min_def)
  show "coord_x (gridPicker_position ov rtl (a\<lparr>coord_y := ay\<rparr>) (S\<lparr>height := sh\<rparr>)
        (B\<lparr>height := bh\<rparr>) (W\<lparr>height := wh\<rparr>) (off\<lparr>coord_y := oy\<rparr>))
     = coord_x (gridPicker_position ov rtl a S B W off)"
    by (simp add: gridPicker_position_x)
  show "snd (notePicker_position e) =
     (if mobile e then - widgetOffsetLeft e
      else if RTL e then
        (if coord_x (xy e) + width (borderBBox e) - pianoWidth e < coord_x (scrollOffset e)
         then coord_x (scrollOffset e) - (coord_x (xy e) + width (borderBBox e) - pianoWidth e)
         else width (borderBBox e) - pianoWidth e)
      else
        (if coord_x (xy e) + pianoWidth e > width (windowSize e) + coord_x (scrollOffset e)
         then - (coord_x (xy e) + pianoWidth e - (width (windowSize e) + coord_x (scrollOffset e)) + 30)
         else 0))"
    by (rule notePicker_position_left)
qed

theorem C7_horizontal_clamp_witness:
  "coord_x (gridPicker_position 25 False \<lparr>coord_x = 900, coord_y = 100\<rparr>
      \<lparr>width = 400, height = 200\<rparr> \<lparr>width = 60, height = 20\<rparr>
      \<lparr>width = 1000, height = 800\<rparr> \<lparr>coord_x = 0, coord_y = 0\<rparr>) = 600
   \<and> snd (notePicker_position
        \<lparr>mobile = False, RTL = True, keyHeight = 90, labelHeight = 20, prevNextHeight = 0,
         pianoWidth = 462, divScrollHeight = 25, xy = \<lparr>coord_x = 100, coord_y = 100\<rparr>,
         borderBBox = \<lparr>width = 60, height = 20\<rparr>, windowSize = \<lparr>width = 1000, height = 800\<rparr>,
         scrollOffset = \<lparr>coord_x = 0, coord_y = 0\<rparr>, widgetOffsetLeft = 0,
         widgetOffsetTop = 100\<rparr>) = 302"
  using C7_horizontal_clamp [of 25 False "\<lparr>coord_x = 900, coord_y = 100\<rparr>"
      "\<lparr>width = 400, height = 200\<rparr>" "\<lparr>width = 60, height = 20\<rparr>"
      "\<lparr>width = 1000, height = 800\<rparr>" "\<lparr>coord_x = 0, coord_y = 0\<rparr>" 100 200 20 800 0
      "\<lparr>mobile = False, RTL = True, keyHeight = 90, labelHeight = 20, prevNextHeight = 0,
         pianoWidth = 462, divScrollHeight = 25, xy = \<lparr>coord_x = 100, coord_y = 100\<rparr>,
         borderBBox = \<lparr>width = 60, height = 20\<rparr>, windowSize = \<lparr>width = 1000, height = 800\<rparr>,
         scrollOffset = \<lparr>coord_x = 0, coord_y = 0\<rparr>, widgetOffsetLeft = 0,
         widgetOffsetTop = 100\<rparr>"]
  by simp

section \<open>Properties of the pagination\<close>

lemma setVisible_block_ok:
  "\<forall>i \<in> set is. 0 \<le> int i + f \<and> int i + f < int (length p) \<Longrightarrow>
   \<exists>p'. setVisible_block is f v p = Inr p' \<and> length p' = length p \<and>
     (\<forall>j < length p. p' ! j = (if \<exists>i \<in> set is. j = nat (int i + f) then v else p ! j))"
proof (induction "is" arbitrary: p)
  case Nil
  then show ?case by simp
next
  case (Cons i "is")
  let ?q = "p[nat (int i + f) := v]"
  from Cons.prems have rng: "0 \<le> int i + f" "int i + f < int (length p)" by simp_all
  from Cons.prems have "\<forall>k \<in> set is. 0 \<le> int k + f \<and> int k + f < int (length ?q)" by simp
  from Cons.IH [OF this] obtain p' where
    p': "setVisible_block is f v ?q = Inr p'" "length p' = length p"
        "\<forall>j < length ?q. p' ! j = (if \<exists>i \<in> set is. j = nat (int i + f) then v else ?q ! j)"
    by auto
  have "setVisible_block (i # is) f v p = Inr p'" using rng p'(1) by (simp add: Let_def)
  moreover have "\<forall>j < length p. p' ! j = (if \<exists>k \<in> set (i # is). j = nat (int k + f) then v else p ! j)"
    using p'(3) by (auto simp: nth_list_update)
  ultimately show ?case using p'(2) by blast
qed

lemma init_inv: "page_inv (pagination_init sz)"
  by (cases sz) (auto simp: page_inv_def pagination_init_def)


lemma block_in_range:
  assumes "0 \<le> f" "f + 12 \<le> int (length p)"
  shows "\<forall>i \<in> set [0..<12]. 0 \<le> int i + f \<and> int i + f < int (length p)"
  using assms by auto

lemma block_index: "0 \<le> f \<Longrightarrow> (\<exists>i \<in> set [0..<12]. j = nat (int i + f)) \<longleftrightarrow> f \<le> int j \<and> int j < f + 12"
proof
  assume "0 \<le> f" "\<exists>i \<in> set [0..<12]. j = nat (int i + f)"
  then show "f \<le> int j \<and> int j < f + 12" by auto
next
  assume f: "0 \<le> f" and j: "f \<le> int j \<and> int j < f + 12"
  then have "nat (int j - f) \<in> set [0..<12]" "j = nat (int (nat (int j - f)) + f)" by auto
  then show "\<exists>i \<in> set [0..<12]. j = nat (int i + f)" by blast
qed

lemma setVisible_block_12:
  assumes "0 \<le> f" "f + 12 \<le> int (length p)"
  shows "\<exists>p'. setVisible_block [0..<12] f v p = Inr p' \<and> length p' = length p \<and>
     (\<forall>j < length p. p' ! j = (if f \<le> int j \<and> int j < f + 12 then v else p ! j))"
  using setVisible_block_ok [OF block_in_range [OF assms], of v] block_index [OF assms(1)]
  by simp

lemma div12_iff: "(j::int) div 12 = c \<longleftrightarrow> c * 12 \<le> j \<and> j < c * 12 + 12"
  by presburger

lemma nextButton_step:
  assumes inv: "page_inv s" and nl: "currentPage s \<noteq> Npages s - 1"
  shows "\<exists>s'. nextButton_MOUSEDOWN s = Inr s' \<and> page_inv s' \<and> Npages s' = Npages s \<and>
           currentPage s' = currentPage s + 1 \<and> labelText s' = octaveLabel (currentPage s')"
proof -
  let ?c = "currentPage s"
  from inv have c: "0 \<le> ?c" "?c < Npages s" and len: "int (length (piano_visible s)) = 12 * Npages s"
    and vis: "\<forall>i < length (piano_visible s). piano_visible s ! i \<longleftrightarrow> int i div 12 = ?c"
    by (simp_all add: page_inv_def)
  from c nl have c2: "?c + 1 < Npages s" by simp
  have "0 \<le> ?c * 12" "?c * 12 + 12 \<le> int (length (piano_visible s))" using c len by simp_all
  from setVisible_block_12 [OF this, of False] obtain p1 where
    p1: "setVisible_block [0..<12] (?c * 12) False (piano_visible s) = Inr p1"
        "length p1 = length (piano_visible s)"
        "\<forall>j < length (piano_visible s). p1 ! j = (if ?c * 12 \<le> int j \<and> int j < ?c * 12 + 12 then False else piano_visible s ! j)"
    by blast
  have "0 \<le> ?c * 12 + 12" "?c * 12 + 12 + 12 \<le> int (length p1)" using c c2 len p1(2) by simp_all
  from setVisible_block_12 [OF this, of True] obtain p2 where
    p2: "setVisible_block [0..<12] (?c * 12 + 12) True p1 = Inr p2"
        "length p2 = length p1"
        "\<forall>j < length p1. p2 ! j = (if ?c * 12 + 12 \<le> int j \<and> int j < ?c * 12 + 12 + 12 then True else p1 ! j)"
    by blast
  let ?s' = "s\<lparr>piano_visible := p2, currentPage := ?c + 1, labelText := octaveLabel (?c + 1)\<rparr>"
  have run: "nextButton_MOUSEDOWN s = Inr ?s'"
    using nl p1(1) p2(1) by (simp add: nextButton_MOUSEDOWN_def Let_def)
  have "\<forall>j < length p2. p2 ! j \<longleftrightarrow> int j div 12 = ?c + 1"
  proof (intro allI impI)
    fix j assume j: "j < length p2"
    then have j1: "j < length p1" and j0: "j < length (piano_visible s)" using p2(2) p1(2) by simp_all
    show "p2 ! j \<longleftrightarrow> int j div 12 = ?c + 1"
      using p2(3) [rule_format, OF j1] p1(3) [rule_format, OF j0] vis [rule_format, OF j0]
      by (simp add: div12_iff) arith
  qed
  then have "page_inv ?s'" using c c2 len p1(2) p2(2) by (simp add: page_inv_def)
  with run show ?thesis by simp
qed


lemma prevButton_step:
  assumes inv: "page_inv s" and nz: "currentPage s \<noteq> 0"
  shows "\<exists>s'. prevButton_MOUSEDOWN s = Inr s' \<and> page_inv s' \<and> Npages s' = Npages s \<and>
           currentPage s' = currentPage s - 1 \<and> labelText s' = octaveLabel (currentPage s')"
proof -
  let ?c = "currentPage s"
  from inv have c: "0 \<le> ?c" "?c < Npages s" and len: "int (length (piano_visible s)) = 12 * Npages s"
    and vis: "\<forall>i < length (piano_visible s). piano_visible s ! i \<longleftrightarrow> int i div 12 = ?c"
    by (simp_all add: page_inv_def)
  from c nz have c2: "1 \<le> ?c" by simp
  have "0 \<le> ?c * 12" "?c * 12 + 12 \<le> int (length (piano_visible s))" using c len by simp_all
  from setVisible_block_12 [OF this, of False] obtain p1 where
    p1: "setVisible_block [0..<12] (?c * 12) False (piano_visible s) = Inr p1"
        "length p1 = length (piano_visible s)"
        "\<forall>j < length (piano_visible s). p1 ! j = (if ?c * 12 \<le> int j \<and> int j < ?c * 12 + 12 then False else piano_visible s ! j)"
    by blast
  have "0 \<le> ?c * 12 - 12" "?c * 12 - 12 + 12 \<le> int (length p1)" using c c2 len p1(2) by simp_all
  from setVisible_block_12 [OF this, of True] obtain p2 where
    p2: "setVisible_block [0..<12] (?c * 12 - 12) True p1 = Inr p2"
        "length p2 = length p1"
        "\<forall>j < length p1. p2 ! j = (if ?c * 12 - 12 \<le> int j \<and> int j < ?c * 12 - 12 + 12 then True else p1 ! j)"
    by blast
  let ?s' = "s\<lparr>piano_visible := p2, currentPage := ?c - 1, labelText := octaveLabel (?c - 1)\<rparr>"
  have run: "prevButton_MOUSEDOWN s = Inr ?s'"
    using nz p1(1) p2(1) by (simp add: prevButton_MOUSEDOWN_def Let_def)
  have "\<forall>j < length p2. p2 ! j \<longleftrightarrow> int j div 12 = ?c - 1"
  proof (intro allI impI)
    fix j assume j: "j < length p2"
    then have j1: "j < length p1" and j0: "j < length (piano_visible s)" using p2(2) p1(2) by simp_all
    show "p2 ! j \<longleftrightarrow> int j div 12 = ?c - 1"
      using p2(3) [rule_format, OF j1] p1(3) [rule_format, OF j0] vis [rule_format, OF j0]
      by (simp add: div12_iff) arith
  qed
  then have "page_inv ?s'" using c c2 len p1(2) p2(2) by (simp add: page_inv_def)
  with run show ?thesis by simp
qed

lemma prevButton_edge:
  "currentPage s = 0 \<Longrightarrow> prevButton_MOUSEDOWN s = Inr (s\<lparr>labelText := octaveLabel 0\<rparr>)"
  by (simp add: prevButton_MOUSEDOWN_def)

lemma nextButton_edge:
  "currentPage s = Npages s - 1 \<Longrightarrow>
   nextButton_MOUSEDOWN s = Inr (s\<lparr>labelText := octaveLabel (Npages s - 1)\<rparr>)"
  by (simp add: nextButton_MOUSEDOWN_def)

lemma page_inv_label: "page_inv s \<Longrightarrow> page_inv (s\<lparr>labelText := l\<rparr>)"
  by (simp add: page_inv_def)

lemma press_inv:
  assumes "page_inv s"
  shows "\<exists>s'. press b s = Inr s' \<and> page_inv s' \<and> Npages s' = Npages s"
proof (cases b)
  case PrevButton
  show ?thesis
  proof (cases "currentPage s = 0")
    case True
    with assms PrevButton show ?thesis by (simp add: prevButton_edge page_inv_label)
  next
    case False
    from prevButton_step [OF assms False] PrevButton show ?thesis by auto
  qed
next
  case NextButton
  show ?thesis
  proof (cases "currentPage s = Npages s - 1")
    case True
    with assms NextButton show ?thesis by (simp add: nextButton_edge page_inv_label)
  next
    case False
    from nextButton_step [OF assms False] NextButton show ?thesis by auto
  qed
next
  case (KeyMouseOver keyId)
  with assms show ?thesis by (simp add: key_MOUSEOVER_def page_inv_label)
qed

lemma prevButton_edge_label:
  "currentPage s = 0 \<Longrightarrow>
   prevButton_MOUSEDOWN (s\<lparr>labelText := l\<rparr>) = Inr (s\<lparr>labelText := octaveLabel 0\<rparr>)"
  by (simp add: prevButton_MOUSEDOWN_def)

lemma nextButton_edge_label:
  "currentPage s = Npages s - 1 \<Longrightarrow>
   nextButton_MOUSEDOWN (s\<lparr>labelText := l\<rparr>) = Inr (s\<lparr>labelText := octaveLabel (Npages s - 1)\<rparr>)"
  by (simp add: nextButton_MOUSEDOWN_def)

lemma presses_inv:
  "page_inv s \<Longrightarrow> \<exists>s'. presses bs s = Inr s' \<and> page_inv s' \<and> Npages s' = Npages s"
proof (induction bs arbitrary: s)
  case Nil
  then show ?case by simp
next
  case (Cons b bs)
  from press_inv [OF Cons.prems, of b] obtain s1 where
    s1: "press b s = Inr s1" "page_inv s1" "Npages s1 = Npages s" by blast
  from Cons.IH [OF s1(2)] s1 show ?case by auto
qed

lemma next_presses:
  "page_inv s \<Longrightarrow>
   \<exists>s'. presses (replicate k NextButton) s = Inr s' \<and> page_inv s' \<and> Npages s' = Npages s \<and>
        currentPage s' = min (currentPage s + int k) (Npages s - 1)"
proof (induction k arbitrary: s)
  case 0
  then show ?case by (simp add: page_inv_def)
next
  case (Suc k)
  show ?case
  proof (cases "currentPage s = Npages s - 1")
    case True
    let ?s1 = "s\<lparr>labelText := octaveLabel (Npages s - 1)\<rparr>"
    have inv1: "page_inv ?s1" using Suc.prems by (rule page_inv_label)
    from Suc.IH [OF inv1] True nextButton_edge [OF True] show ?thesis by auto
  next
    case False
    from nextButton_step [OF Suc.prems False] obtain s1 where
      s1: "nextButton_MOUSEDOWN s = Inr s1" "page_inv s1" "Npages s1 = Npages s"
          "currentPage s1 = currentPage s + 1" by blast
    from Suc.prems have "currentPage s < Npages s" by (simp add: page_inv_def)
    with False have "currentPage s + 1 \<le> Npages s - 1" by simp
    with Suc.IH [OF s1(2)] s1 show ?thesis by (auto simp: min_def)
  qed
qed

text \<open>
  C3.  With pagination enabled and \<open>n\<close> keys, \<open>n\<close> one of 12, 36 and 60:
  \<open>Npages\<close> is \<open>n / 12\<close>; every sequence of presses of the two buttons and of
  mouse-overs on keys runs without a throw and ends with \<open>0 \<le> currentPage < Npages\<close>;
  in the state it reaches, whatever the label shows at that moment, the previous button on
  page 0 and the next button on the last page leave the page and the visibility of every
  key as they are and write the text of the current page into the label; and \<open>Npages\<close>
  presses of the next button from page 0 end on the last page.
\<close>

theorem C3_page_bounds:
  "12 * Npages (pagination_init sz) = int (pianoSize_value sz)
   \<and> (\<exists>s. presses bs (pagination_init sz) = Inr s
          \<and> Npages s = Npages (pagination_init sz)
          \<and> 0 \<le> currentPage s \<and> currentPage s < Npages s
          \<and> (currentPage s = 0 \<longrightarrow>
               (\<forall>l. prevButton_MOUSEDOWN (s\<lparr>labelText := l\<rparr>) =
                      Inr (s\<lparr>labelText := octaveLabel 0\<rparr>)))
          \<and> (currentPage s = Npages s - 1 \<longrightarrow>
               (\<forall>l. nextButton_MOUSEDOWN (s\<lparr>labelText := l\<rparr>) =
                      Inr (s\<lparr>labelText := octaveLabel (Npages s - 1)\<rparr>))))
   \<and> (\<exists>s. presses (replicate (nat (Npages (pagination_init sz))) NextButton) (pagination_init sz) = Inr s
          \<and> currentPage s = Npages (pagination_init sz) - 1)"
proof (intro conjI)
  show "12 * Npages (pagination_init sz) = int (pianoSize_value sz)"
    by (cases sz) (simp_all add: pagination_init_def)
next
  from presses_inv [OF init_inv, of bs sz] obtain s where
    s: "presses bs (pagination_init sz) = Inr s" "page_inv s" "Npages s = Npages (pagination_init sz)"
    by blast
  from s(2) have "0 \<le> currentPage s" "currentPage s < Npages s" by (simp_all add: page_inv_def)
  moreover have "currentPage s = 0 \<longrightarrow>
      (\<forall>l. prevButton_MOUSEDOWN (s\<lparr>labelText := l\<rparr>) = Inr (s\<lparr>labelText := octaveLabel 0\<rparr>))"
    by (simp add: prevButton_edge_label)
  moreover have "currentPage s = Npages s - 1 \<longrightarrow>
      (\<forall>l. nextButton_MOUSEDOWN (s\<lparr>labelText := l\<rparr>) =
             Inr (s\<lparr>labelText := octaveLabel (Npages s - 1)\<rparr>))"
    by (simp add: nextButton_edge_label)
  ultimately
  show "\<exists>s. presses bs (pagination_init sz) = Inr s
          \<and> Npages s = Npages (pagination_init sz)
          \<and> 0 \<le> currentPage s \<and> currentPage s < Npages s
          \<and> (currentPage s = 0 \<longrightarrow>
               (\<forall>l. prevButton_MOUSEDOWN (s\<lparr>labelText := l\<rparr>) =
                      Inr (s\<lparr>labelText := octaveLabel 0\<rparr>)))
          \<and> (currentPage s = Npages s - 1 \<longrightarrow>
               (\<forall>l. nextButton_MOUSEDOWN (s\<lparr>labelText := l\<rparr>) =
                      Inr (s\<lparr>labelText := octaveLabel (Npages s - 1)\<rparr>)))"
    using s(1,3) by blast
next
  let ?N = "Npages (pagination_init sz)"
  from next_presses [OF init_inv, of "nat ?N" sz] obtain s where
    s: "presses (replicate (nat ?N) NextButton) (pagination_init sz) = Inr s"
       "currentPage s = min (currentPage (pagination_init sz) + int (nat ?N)) (?N - 1)"
    by blast
  have "0 < ?N" by (cases sz) (simp_all add: pagination_init_def)
  then have "currentPage s = ?N - 1" using s(2) by (simp add: pagination_init_def min_def)
  with s(1) show "\<exists>s. presses (replicate (nat ?N) NextButton) (pagination_init sz) = Inr s
          \<and> currentPage s = ?N - 1" by blast
qed

lemma press_eval:
  "presses [NextButton, NextButton, KeyMouseOver ''High C''] (pagination_init medium) =
     Inr \<lparr>currentPage = 2, Npages = 3,
          piano_visible = replicate 24 False @ replicate 12 True,
          labelText = ''High C''\<rparr>"
  "presses [KeyMouseOver ''Low C''] (pagination_init medium) =
     Inr \<lparr>currentPage = 0, Npages = 3,
          piano_visible = replicate 12 True @ replicate 24 False,
          labelText = ''Low C''\<rparr>"
  by code_simp+

theorem C3_page_bounds_witness:
  "nextButton_MOUSEDOWN
     \<lparr>currentPage = 2, Npages = 3, piano_visible = replicate 24 False @ replicate 12 True,
      labelText = ''High C''\<rparr>
   = Inr \<lparr>currentPage = 2, Npages = 3, piano_visible = replicate 24 False @ replicate 12 True,
          labelText = ''Octave #3''\<rparr>
   \<and> prevButton_MOUSEDOWN
     \<lparr>currentPage = 0, Npages = 3, piano_visible = replicate 12 True @ replicate 24 False,
      labelText = ''Low C''\<rparr>
   = Inr \<lparr>currentPage = 0, Npages = 3, piano_visible = replicate 12 True @ replicate 24 False,
          labelText = ''Octave #1''\<rparr>"
  using C3_page_bounds [of medium "[NextButton, NextButton, KeyMouseOver ''High C'']"]
    C3_page_bounds [of medium "[KeyMouseOver ''Low C'']"]
  unfolding press_eval
  by (simp add: pagination_init_def octaveLabel_def decimal_of_int_def digit_char_def)

section \<open>Properties of the flyout button\<close>

lemma FlyoutButton_workspace:
  "fb_targetWorkspace (fst (FlyoutButton w xml isLabel)) = Some w"
  by (simp add: FlyoutButton_def Let_def split: prod.splits)

lemma FlyoutButton_label_with_key:
  assumes "attr_truthy (xml ''callbackkey'')"
  shows "snd (FlyoutButton w xml True) =
           [concat_text ''Labels should not have callbacks. Label text: '' (xml ''text'')]"
    and "fb_callback (fst (FlyoutButton w xml True)) = None"
  using assms by (simp_all add: FlyoutButton_def Let_def)

lemma FlyoutButton_button_without_callback:
  assumes "\<not> attr_truthy (xml ''callbackkey'') \<or> getButtonCallback w (xml ''callbackkey'') = None"
  shows "snd (FlyoutButton w xml False) =
           [concat_text ''Buttons should have callbacks. Button text: '' (xml ''text'')]"
    and "fb_callback (fst (FlyoutButton w xml False)) = None"
  using assms by (auto simp add: FlyoutButton_def Let_def)

lemma onMouseUp_no_callback:
  assumes "fb_targetWorkspace b = Some w" "fb_callback b = None"
  shows "onMouseUp b gesture = Inr (if gesture then [CancelGesture] else [])"
  using assms by (simp add: onMouseUp_def)

text \<open>
  C8.  A label whose \<open>callbackkey\<close> attribute is set gets one warning and no callback; a
  button whose \<open>callbackkey\<close> attribute is missing, empty or not registered gets one
  warning and no callback.  In both cases the constructor returns a button, and a mouse-up
  on it returns normally after at most cancelling the gesture: no callback is called.
\<close>

theorem C8_callback_configuration:
  "(attr_truthy (xml ''callbackkey'') \<longrightarrow>
      snd (FlyoutButton w xml True) =
        [concat_text ''Labels should not have callbacks. Label text: '' (xml ''text'')]
      \<and> fb_callback (fst (FlyoutButton w xml True)) = None
      \<and> onMouseUp (fst (FlyoutButton w xml True)) gesture =
          Inr (if gesture then [CancelGesture] else []))
   \<and> (\<not> attr_truthy (xml ''callbackkey'') \<or> getButtonCallback w (xml ''callbackkey'') = None \<longrightarrow>
      snd (FlyoutButton w xml False) =
        [concat_text ''Buttons should have callbacks. Button text: '' (xml ''text'')]
      \<and> fb_callback (fst (FlyoutButton w xml False)) = None
      \<and> onMouseUp (fst (FlyoutButton w xml False)) gesture =
          Inr (if gesture then [CancelGesture] else []))"
proof (intro conjI impI)
  assume k: "attr_truthy (xml ''callbackkey'')"
  show "snd (FlyoutButton w xml True) =
        [concat_text ''Labels should not have callbacks. Label text: '' (xml ''text'')]"
    using k by (rule FlyoutButton_label_with_key(1) [of xml w])
  show "fb_callback (fst (FlyoutButton w xml True)) = None"
    using k by (rule FlyoutButton_label_with_key(2) [of xml w])
  show "onMouseUp (fst (FlyoutButton w xml True)) gesture =
          Inr (if gesture then [CancelGesture] else [])"
    using FlyoutButton_workspace [of w xml True] FlyoutButton_label_with_key(2) [of xml w, OF k]
    by (rule onMouseUp_no_callback)
next
  assume k: "\<not> attr_truthy (xml ''callbackkey'') \<or> getButtonCallback w (xml ''callbackkey'') = None"
  show "snd (FlyoutButton w xml False) =
        [concat_text ''Buttons should have callbacks. Button text: '' (xml ''text'')]"
    using k by (rule FlyoutButton_button_without_callback(1) [of xml w])
  show "fb_callback (fst (FlyoutButton w xml False)) = None"
    using k by (rule FlyoutButton_button_without_callback(2) [of xml w])
  show "onMouseUp (fst (FlyoutButton w xml False)) gesture =
          Inr (if gesture then [CancelGesture] else [])"
    using FlyoutButton_workspace [of w xml False]
      FlyoutButton_button_without_callback(2) [of xml w, OF k]
    by (rule onMouseUp_no_callback)
qed

theorem C8_callback_configuration_witness:
  "snd (FlyoutButton \<lparr>getButtonCallback = (\<lambda>k. if k = Some ''go'' then Some (1::nat) else None)\<rparr>
          (\<lambda>a. if a = ''text'' then Some ''Help'' else if a = ''callbackkey'' then Some ''go'' else None)
          True)
     = [''Labels should not have callbacks. Label text: Help'']
   \<and> onMouseUp (fst (FlyoutButton
          \<lparr>getButtonCallback = (\<lambda>k. if k = Some ''go'' then Some (1::nat) else None)\<rparr>
          (\<lambda>a. if a = ''text'' then Some ''Help'' else if a = ''callbackkey'' then Some ''go'' else None)
          True)) True = Inr [CancelGesture]
   \<and> snd (FlyoutButton \<lparr>getButtonCallback = (\<lambda>k. if k = Some ''go'' then Some (1::nat) else None)\<rparr>
          (\<lambda>a. if a = ''text'' then Some ''Run'' else if a = ''callbackkey'' then Some ''stop'' else None)
          False)
     = [''Buttons should have callbacks. Button text: Run'']
   \<and> onMouseUp (fst (FlyoutButton
          \<lparr>getButtonCallback = (\<lambda>k. if k = Some ''go'' then Some (1::nat) else None)\<rparr>
          (\<lambda>a. if a = ''text'' then Some ''Run'' else if a = ''callbackkey'' then Some ''stop'' else None)
          False)) True = Inr [CancelGesture]"
  using
    C8_callback_configuration
      [of "\<lambda>a. if a = ''text'' then Some ''Help'' else if a = ''callbackkey'' then Some ''go'' else None"
          "\<lparr>getButtonCallback = (\<lambda>k. if k = Some ''go'' then Some (1::nat) else None)\<rparr>" True]
    C8_callback_configuration
      [of "\<lambda>a. if a = ''text'' then Some ''Run'' else if a = ''callbackkey'' then Some ''stop'' else None"
          "\<lparr>getButtonCallback = (\<lambda>k. if k = Some ''go'' then Some (1::nat) else None)\<rparr>" True]
  by (simp add: concat_text_def)

section \<open>Properties of the grid picker\<close>

lemma disposeTooltips_empty [simp]: "tooltips_list (disposeTooltips g) = []"
  by (simp add: disposeTooltips_def)

lemma disposeTooltips_idem: "tooltips_list g = [] \<Longrightarrow> disposeTooltips g = g"
  by (simp add: disposeTooltips_def)

lemma dispose_tooltips_list [simp]: "tooltips_list (dispose sd g) = []"
  by (simp add: dispose_def)

lemma dispose_inherited [simp]: "inherited (dispose sd g) = sd (inherited g)"
  by (simp add: dispose_def disposeTooltips_def)

lemma dispose_twice:
  "dispose sd (dispose sd g) = (dispose sd g)\<lparr>inherited := sd (sd (inherited g))\<rparr>"
proof -
  let ?h = "(dispose sd g)\<lparr>inherited := sd (inherited (dispose sd g))\<rparr>"
  have "tooltips_list ?h = []" by simp
  then have "disposeTooltips ?h = ?h" by (rule disposeTooltips_idem)
  then show ?thesis by (simp add: dispose_def [of sd "dispose sd g"])
qed

text \<open>
  C9.  After \<open>dispose()\<close> the tooltip list is empty.  A second \<open>dispose()\<close> finds it
  empty: it disposes no tooltip again and leaves every field of the grid picker as it was,
  the inherited part having the inherited \<open>dispose\<close> applied once more; when that is
  idempotent, the state after two calls is the state after one.  \<open>disposeTooltips\<close> on
  the disposed picker changes nothing.
\<close>

theorem C9_dispose_idempotent:
  "tooltips_list (dispose sd g) = []
   \<and> disposeTooltips (dispose sd g) = dispose sd g
   \<and> dispose sd (dispose sd g) = (dispose sd g)\<lparr>inherited := sd (sd (inherited g))\<rparr>
   \<and> (sd (sd (inherited g)) = sd (inherited g) \<longrightarrow> dispose sd (dispose sd g) = dispose sd g)"
proof (intro conjI impI)
  show "tooltips_list (dispose sd g) = []" by simp
  show "disposeTooltips (dispose sd g) = dispose sd g" by (simp add: disposeTooltips_idem)
  show "dispose sd (dispose sd g) = (dispose sd g)\<lparr>inherited := sd (sd (inherited g))\<rparr>"
    by (rule dispose_twice)
  assume "sd (sd (inherited g)) = sd (inherited g)"
  then show "dispose sd (dispose sd g) = dispose sd g"
    by (simp add: dispose_twice)
qed

lemma FieldGridPicker_enabled [simp]:
  "enabled (tooltipConfig (FieldGridPicker parseInt super_new params)) = True"
  by (simp add: FieldGridPicker_def)

lemma addTooltips_enabled:
  "enabled (tooltipConfig g) \<Longrightarrow> i + length elems \<le> length options \<Longrightarrow>
   addTooltips elems i options g =
     Inr (g\<lparr>tooltips_list := tooltips_list g @
            map (\<lambda>(elem, opt). \<lparr>tip_element = elem, tip_text = tooltip_content (fst opt),
                                tip_showDelayMs = 0\<rparr>)
                (zip elems (drop i options))\<rparr>)"
proof (induction elems arbitrary: i g)
  case Nil
  then show ?case by simp
next
  case (Cons elem elems)
  from Cons.prems have i: "i < length options" by simp
  then have d: "drop i options = options ! i # drop (Suc i) options"
    by (simp add: Cons_nth_drop_Suc)
  let ?g = "g\<lparr>tooltips_list := tooltips_list g @
                 [\<lparr>tip_element = elem, tip_text = tooltip_content (fst (options ! i)),
                   tip_showDelayMs = 0\<rparr>]\<rparr>"
  have "enabled (tooltipConfig ?g)" using Cons.prems(1) by simp
  moreover have "Suc i + length elems \<le> length options" using Cons.prems(2) by simp
  ultimately have "addTooltips elems (Suc i) options ?g =
     Inr (?g\<lparr>tooltips_list := tooltips_list ?g @
            map (\<lambda>(elem, opt). \<lparr>tip_element = elem, tip_text = tooltip_content (fst opt),
                                tip_showDelayMs = 0\<rparr>)
                (zip elems (drop (Suc i) options))\<rparr>)"
    by (rule Cons.IH)
  then show ?case using Cons.prems(1) i d by simp
qed

theorem C9_dispose_idempotent_witness:
  "dispose (\<lambda>shown. False)
     (dispose (\<lambda>shown. False)
        \<lparr>tooltips_list = [\<lparr>tip_element = 0::nat, tip_text = Text ''a'', tip_showDelayMs = 0\<rparr>,
                           \<lparr>tip_element = 1, tip_text = Text ''b'', tip_showDelayMs = 0\<rparr>],
         disposedTooltips = [], columns_n = 4, maxRows_n = 0, width_n = 400,
         itemColour_v = JStr ''#fff'',
         tooltipConfig = \<lparr>enabled = True, xOffset = 15, yOffset = - 10\<rparr>,
         inherited = True\<rparr>)
   = \<lparr>tooltips_list = [],
      disposedTooltips = [\<lparr>tip_element = 0::nat, tip_text = Text ''a'', tip_showDelayMs = 0\<rparr>,
                          \<lparr>tip_element = 1, tip_text = Text ''b'', tip_showDelayMs = 0\<rparr>],
      columns_n = 4, maxRows_n = 0, width_n = 400, itemColour_v = JStr ''#fff'',
      tooltipConfig = \<lparr>enabled = True, xOffset = 15, yOffset = - 10\<rparr>,
      inherited = False\<rparr>"
  using C9_dispose_idempotent [of "\<lambda>shown. False"
        "\<lparr>tooltips_list = [\<lparr>tip_element = 0::nat, tip_text = Text ''a'', tip_showDelayMs = 0\<rparr>,
                           \<lparr>tip_element = 1, tip_text = Text ''b'', tip_showDelayMs = 0\<rparr>],
         disposedTooltips = [], columns_n = 4, maxRows_n = 0, width_n = 400,
         itemColour_v = JStr ''#fff'',
         tooltipConfig = \<lparr>enabled = True, xOffset = 15, yOffset = - 10\<rparr>,
         inherited = True\<rparr>"]
  by (simp add: dispose_def [of _ "\<lparr>tooltips_list = [_, _], disposedTooltips = _, columns_n = _,
        maxRows_n = _, width_n = _, itemColour_v = _, tooltipConfig = _, inherited = _\<rparr>"]
      disposeTooltips_def)

text \<open>
  C10.  For every \<open>params\<close>, whatever \<open>parseInt\<close> returns, the constructor sets
  \<open>tooltipConfig_.enabled\<close> to true; and \<open>showEditor_\<close>, on a picker so constructed,
  makes one tooltip for each element of \<open>menuItemsDom\<close> (each of which has its entry in
  \<open>options\<close>), in order.
\<close>

theorem C10_tooltips_always_enabled:
  "enabled (tooltipConfig (FieldGridPicker parseInt super_new params)) = True
   \<and> (length menuItemsDom \<le> length options \<longrightarrow>
        (\<exists>g. showEditor_tooltips menuItemsDom options (FieldGridPicker parseInt super_new params) = Inr g
            \<and> length (tooltips_list g) = length menuItemsDom
            \<and> map tip_element (tooltips_list g) = menuItemsDom))"
proof (intro conjI impI)
  show "enabled (tooltipConfig (FieldGridPicker parseInt super_new params)) = True" by simp
next
  assume len: "length menuItemsDom \<le> length options"
  let ?g = "disposeTooltips (FieldGridPicker parseInt super_new params)"
  let ?mk = "\<lambda>(elem, opt). \<lparr>tip_element = elem, tip_text = tooltip_content (fst opt),
                              tip_showDelayMs = 0\<rparr>"
  have en: "enabled (tooltipConfig ?g)" by (simp add: disposeTooltips_def)
  from len have "0 + length menuItemsDom \<le> length options" by simp
  from addTooltips_enabled [OF en this]
  have run: "showEditor_tooltips menuItemsDom options (FieldGridPicker parseInt super_new params) =
      Inr (?g\<lparr>tooltips_list := tooltips_list ?g @ map ?mk (zip menuItemsDom (drop 0 options))\<rparr>)"
    by (simp add: showEditor_tooltips_def)
  have "map tip_element (map ?mk (zip menuItemsDom options)) = map fst (zip menuItemsDom options)"
    by (simp add: case_prod_beta)
  also have "\<dots> = menuItemsDom" using len by (simp add: map_fst_zip_take)
  finally have "map tip_element (map ?mk (zip menuItemsDom options)) = menuItemsDom" .
  with run len show "\<exists>g. showEditor_tooltips menuItemsDom options
            (FieldGridPicker parseInt super_new params) = Inr g
        \<and> length (tooltips_list g) = length menuItemsDom
        \<and> map tip_element (tooltips_list g) = menuItemsDom"
    by simp
qed

theorem C10_tooltips_always_enabled_witness:
  "enabled (tooltipConfig (FieldGridPicker (\<lambda>v. None) ()
      \<lparr>columns = JUndefined, maxRows = JUndefined, width_px = JUndefined, itemColour = JUndefined,
       tooltips = JStr ''false'', tooltipsXOffset = JUndefined, tooltipsYOffset = JUndefined\<rparr>))
   \<and> (\<exists>g. showEditor_tooltips [10::nat, 11] [(Text ''a'', 1::nat), (Text ''b'', 2)]
            (FieldGridPicker (\<lambda>v. None) ()
               \<lparr>columns = JUndefined, maxRows = JUndefined, width_px = JUndefined,
                itemColour = JUndefined, tooltips = JStr ''false'', tooltipsXOffset = JUndefined,
                tooltipsYOffset = JUndefined\<rparr>) = Inr g
          \<and> map tip_element (tooltips_list g) = [10, 11])"
  using C10_tooltips_always_enabled [of "\<lambda>v. None" "()"
      "\<lparr>columns = JUndefined, maxRows = JUndefined, width_px = JUndefined, itemColour = JUndefined,
       tooltips = JStr ''false'', tooltipsXOffset = JUndefined, tooltipsYOffset = JUndefined\<rparr>"
      "[10::nat, 11]" "[(Text ''a'', 1::nat), (Text ''b'', 2)]"]
  by auto

section \<open>Properties of the note table\<close>

lemma keyFrequency_pos: "0 < keyFrequency k"
  by (simp add: keyFrequency_def)

lemma keyFrequency_strict_mono: "j < k \<Longrightarrow> keyFrequency j < keyFrequency k"
  by (simp add: keyFrequency_def divide_strict_right_mono)

lemma keyFrequency_octave: "keyFrequency (k + 12) = 2 * keyFrequency k"
proof -
  have "(real_of_int (k + 12) - 49) / 12 = (real_of_int k - 49) / 12 + 1"
    by (simp add: field_simps)
  then show ?thesis by (simp only: keyFrequency_def powr_add) simp
qed

lemma keyFrequency_pow4: "keyFrequency k ^ 4 = 2 powr ((real_of_int k - 49) / 3) * 440 ^ 4"
proof -
  have "keyFrequency k ^ 4 = (2 powr ((real_of_int k - 49) / 12)) ^ 4 * 440 ^ 4"
    by (simp only: keyFrequency_def power_mult_distrib)
  also have "((2::real) powr ((real_of_int k - 49) / 12)) ^ 4 = 2 powr (of_nat 4 * ((real_of_int k - 49) / 12))"
    by (rule powr_power) simp
  also have "of_nat 4 * ((real_of_int k - 49) / 12) = (real_of_int k - 49) / 3" by simp
  finally show ?thesis .
qed

lemma keyFrequency_28: "130.81 < keyFrequency 28 \<and> keyFrequency 28 < 130.82"
proof -
  have "(2::real) powr (- 7) = 1 / 2 ^ 7" by (simp add: powr_minus_divide)
  then have p: "keyFrequency 28 ^ 4 = 292820000"
    using keyFrequency_pow4 [of 28] by simp
  have "(130.81::real) ^ 4 < keyFrequency 28 ^ 4" unfolding p by (simp add: power4_eq_xxxx)
  then have lo: "130.81 < keyFrequency 28"
    by (rule power_less_imp_less_base) (simp add: less_imp_le keyFrequency_pos)
  have "keyFrequency 28 ^ 4 < (130.82::real) ^ 4" unfolding p by (simp add: power4_eq_xxxx)
  then have hi: "keyFrequency 28 < 130.82"
    by (rule power_less_imp_less_base) simp
  from lo hi show ?thesis ..
qed

lemma keyFrequency_40: "261.62 < keyFrequency 40 \<and> keyFrequency 40 < 261.64"
  using keyFrequency_28 keyFrequency_octave [of 28] by simp

lemma keyFrequency_neq: "keyFrequency 28 \<noteq> 440 * 2 powr ((40 - 49) / 12)"
proof -
  have "440 * 2 powr ((40 - 49) / 12) = keyFrequency 40" by (simp add: keyFrequency_def)
  then show ?thesis using keyFrequency_strict_mono [of 28 40] by simp
qed


lemma notes_loop_length:
  "length (fst (notes_loop sz is p c k (names, freqs))) = length names + length is
   \<and> length (snd (notes_loop sz is p c k (names, freqs))) = length freqs + length is"
  by (induction "is" arbitrary: p c k names freqs) (simp_all add: Let_def)

lemma notes_loop_freqs:
  "snd (notes_loop sz is p c k (names, freqs)) =
     freqs @ map (\<lambda>j. keyFrequency (k + int j)) [0..<length is]"
proof (induction "is" arbitrary: p c k names freqs)
  case Nil
  then show ?case by simp
next
  case (Cons i "is")
  have "[0..<length (i # is)] = 0 # map Suc [0..<length is]"
    by (simp add: upt_conv_Cons map_Suc_upt del: upt_Suc)
  then show ?case by (simp add: Let_def Cons.IH comp_def add.assoc del: upt_Suc)
qed

lemma createNotesArray_freqs:
  "fn_noteFreq (createNotesArray s) =
     fn_noteFreq s @ map (\<lambda>j. keyFrequency (startKey (fn_nKeys s) + int j)) [0..<pianoSize_value (fn_nKeys s)]"
  using notes_loop_freqs [of "fn_nKeys s" "[0..<pianoSize_value (fn_nKeys s)]" _ _ _ "fn_noteName s" "fn_noteFreq s"]
  by (simp add: createNotesArray_def split: prod.splits) (metis snd_conv)

lemma createNotesArray_names:
  "fn_noteName (createNotesArray s) =
     fst (notes_loop (fn_nKeys s) [0..<pianoSize_value (fn_nKeys s)]
              (startPrefix (fn_nKeys s)) ''C'' (startKey (fn_nKeys s))
              (fn_noteName s, fn_noteFreq s))"
  by (simp add: createNotesArray_def split: prod.splits)

lemma createNotesArray_length:
  "length (fn_noteName (createNotesArray s)) = length (fn_noteName s) + pianoSize_value (fn_nKeys s)"
  using notes_loop_length [of "fn_nKeys s" "[0..<pianoSize_value (fn_nKeys s)]" _ _ _ "fn_noteName s" "fn_noteFreq s"]
  by (simp add: createNotesArray_names)

lemma createNotesArray_other [simp]:
  "fn_nKeys (createNotesArray s) = fn_nKeys s"
  "fn_note (createNotesArray s) = fn_note s"
  "fn_eps (createNotesArray s) = fn_eps s"
  by (simp_all add: createNotesArray_def split: prod.splits)

lemma upt_36:
  "[0..<36] = [0, 1, 2, 3, 4, 5, 6, 7, 8, 9, 10, 11, 12, 13, 14, 15, 16, 17, 18, 19, 20, 21, 22,
               23, 24, 25, 26, 27, 28, 29, 30, 31, 32, 33, 34, 35]"
  by (simp add: upt_rec numeral_eq_Suc)

lemma notes_loop_step:
  "notes_loop nKeys (i # is) prefix curNote keyNumber (noteName, noteFreq) =
     notes_loop nKeys is (if (i + 1) mod 12 = 0 then nextNotePrefix nKeys prefix else prefix)
       (nextNote curNote) (keyNumber + 1)
       (noteName @ [prefix_text prefix @ '' '' @ curNote], noteFreq @ [keyFrequency keyNumber])"
  by (simp add: Let_def)

lemma medium_names:
  "fst (notes_loop medium [0..<36] (Some ''Low'') ''C'' 28 ([], [])) =
    [''Low C'', ''Low C#'', ''Low D'', ''Low D#'', ''Low E'', ''Low F'', ''Low F#'', ''Low G'',
     ''Low G#'', ''Low A'', ''Low A#'', ''Low B'',
     ''Middle C'', ''Middle C#'', ''Middle D'', ''Middle D#'', ''Middle E'', ''Middle F'',
     ''Middle F#'', ''Middle G'', ''Middle G#'', ''Middle A'', ''Middle A#'', ''Middle B'',
     ''High C'', ''High C#'', ''High D'', ''High D#'', ''High E'', ''High F'', ''High F#'',
     ''High G'', ''High G#'', ''High A'', ''High A#'', ''High B'']"
  unfolding upt_36
  by (simp add: notes_loop_step nextNote_def nextNotePrefix_def prefix_text_def del: notes_loop.simps(2))

lemma init_arrays:
  assumes "s1 = createNotesArray (s\<lparr>fn_noteFreq := [], fn_noteName := []\<rparr>)"
  shows "length (fn_noteName s1) = pianoSize_value (fn_nKeys s)"
    and "length (fn_noteFreq s1) = pianoSize_value (fn_nKeys s)"
    and "i < pianoSize_value (fn_nKeys s) \<Longrightarrow>
          fn_noteFreq s1 ! i = keyFrequency (startKey (fn_nKeys s) + int i)"
  using assms by (simp_all add: createNotesArray_length createNotesArray_freqs)

text \<open>
  C2, as stated, fails: with 36 keys the first entry has the frequency of key 28, which is
  not \<open>440 * 2^((40 - 49) / 12)\<close>.
\<close>

theorem C2_counterexample:
  "fn_noteFreq (createNotesArray (FieldNote ''262'' ''262'' True True)) ! 0
     \<noteq> 440 * 2 powr ((40 - 49) / 12)"
  using keyFrequency_neq by (simp add: createNotesArray_freqs FieldNote_def upt_rec [of 0 36])

text \<open>
  C2, amended.  On empty arrays \<open>createNotesArray_\<close> makes as many entries as there are
  keys (12, 36 or 60); entry \<open>i\<close> has the frequency \<open>440 * 2^((k - 49) / 12)\<close> of the
  key \<open>k = start + i\<close>, where \<open>start\<close> is 40, 28 or 16, so the frequencies ascend
  with the index.  With 36 keys the first entry is \<open>Low C\<close> with
  \<open>440 * 2^((28 - 49) / 12)\<close>, about 130.81 Hz, and entry 12 is \<open>Middle C\<close> with
  \<open>440 * 2^((40 - 49) / 12)\<close>, about 261.63 Hz.
\<close>

theorem C2_note_table:
  assumes "s1 = createNotesArray (s\<lparr>fn_noteFreq := [], fn_noteName := []\<rparr>)"
  shows "length (fn_noteName s1) = pianoSize_value (fn_nKeys s)
     \<and> length (fn_noteFreq s1) = pianoSize_value (fn_nKeys s)
     \<and> (\<forall>i < pianoSize_value (fn_nKeys s).
           fn_noteFreq s1 ! i = 440 * 2 powr ((real_of_int (startKey (fn_nKeys s) + int i) - 49) / 12))
     \<and> (\<forall>i j. i < j \<and> j < pianoSize_value (fn_nKeys s) \<longrightarrow> fn_noteFreq s1 ! i < fn_noteFreq s1 ! j)
     \<and> (fn_nKeys s = medium \<longrightarrow>
           fn_noteName s1 ! 0 = ''Low C''
         \<and> fn_noteFreq s1 ! 0 = 440 * 2 powr ((28 - 49) / 12)
         \<and> 130.81 < fn_noteFreq s1 ! 0 \<and> fn_noteFreq s1 ! 0 < 130.82
         \<and> fn_noteName s1 ! 12 = ''Middle C''
         \<and> fn_noteFreq s1 ! 12 = 440 * 2 powr ((40 - 49) / 12)
         \<and> 261.62 < fn_noteFreq s1 ! 12 \<and> fn_noteFreq s1 ! 12 < 261.64)"
proof (intro conjI allI impI)
  show "length (fn_noteName s1) = pianoSize_value (fn_nKeys s)"
    by (rule init_arrays(1) [OF assms])
  show "length (fn_noteFreq s1) = pianoSize_value (fn_nKeys s)"
    by (rule init_arrays(2) [OF assms])
next
  fix i assume "i < pianoSize_value (fn_nKeys s)"
  then show "fn_noteFreq s1 ! i = 440 * 2 powr ((real_of_int (startKey (fn_nKeys s) + int i) - 49) / 12)"
    using init_arrays(3) [OF assms] by (simp add: keyFrequency_def)
next
  fix i j assume "i < j \<and> j < pianoSize_value (fn_nKeys s)"
  then show "fn_noteFreq s1 ! i < fn_noteFreq s1 ! j"
    using init_arrays(3) [OF assms, of i] init_arrays(3) [OF assms, of j]
    by (simp add: keyFrequency_strict_mono)
next
  assume m: "fn_nKeys s = medium"
  have names: "fn_noteName s1 = fst (notes_loop medium [0..<36] (Some ''Low'') ''C'' 28 ([], []))"
    using assms m by (simp add: createNotesArray_names)
  show "fn_noteName s1 ! 0 = ''Low C''" unfolding names medium_names by simp
  show "fn_noteName s1 ! 12 = ''Middle C''" unfolding names medium_names by simp
  have f0: "fn_noteFreq s1 ! 0 = keyFrequency 28"
    using init_arrays(3) [OF assms, of 0] m by simp
  have f12: "fn_noteFreq s1 ! 12 = keyFrequency 40"
    using init_arrays(3) [OF assms, of 12] m by simp
  show "fn_noteFreq s1 ! 0 = 440 * 2 powr ((28 - 49) / 12)" unfolding f0 by (simp add: keyFrequency_def)
  show "fn_noteFreq s1 ! 12 = 440 * 2 powr ((40 - 49) / 12)" unfolding f12 by (simp add: keyFrequency_def)
  show "130.81 < fn_noteFreq s1 ! 0" unfolding f0 using keyFrequency_28 by simp
  show "fn_noteFreq s1 ! 0 < 130.82" unfolding f0 using keyFrequency_28 by simp
  show "261.62 < fn_noteFreq s1 ! 12" unfolding f12 using keyFrequency_40 by simp
  show "fn_noteFreq s1 ! 12 < 261.64" unfolding f12 using keyFrequency_40 by simp
qed

theorem C2_note_table_witness:
  "fn_noteName (createNotesArray ((FieldNote ''262'' ''262'' True True)\<lparr>fn_noteFreq := [], fn_noteName := []\<rparr>)) ! 0
     = ''Low C''
   \<and> fn_noteFreq (createNotesArray ((FieldNote ''262'' ''262'' True True)\<lparr>fn_noteFreq := [], fn_noteName := []\<rparr>)) ! 0
     < fn_noteFreq (createNotesArray ((FieldNote ''262'' ''262'' True True)\<lparr>fn_noteFreq := [], fn_noteName := []\<rparr>)) ! 12
   \<and> fn_noteFreq (createNotesArray ((FieldNote ''262'' ''262'' True True)\<lparr>fn_noteFreq := [], fn_noteName := []\<rparr>)) ! 0
     < 130.82"
  using C2_note_table [OF refl, of "FieldNote ''262'' ''262'' True True"]
  by (simp add: FieldNote_def)

section \<open>Properties of the note field\<close>

lemma setText_keeps [simp]:
  "events_fired (setText B sst t s) = events_fired s"
  "fn_note (setText B sst t s) = fn_note s"
  by (simp_all add: setText_def Let_def)

lemma setValue_rejected:
  assumes "n = js_parseFloat B (to_string B (js_or v (JStr ''0'')))"
    and "js_isNaN (js_Number B (js_String B n)) \<or> js_lt (js_Number B (js_String B n)) (Fin 0)"
  shows "setValue B sst v s = s"
  using assms by (simp add: setValue_def Let_def)

lemma setValue_accepted:
  assumes "n = js_parseFloat B (to_string B (js_or v (JStr ''0'')))"
    and "\<not> (js_isNaN (js_Number B (js_String B n)) \<or> js_lt (js_Number B (js_String B n)) (Fin 0))"
  shows "fn_note (setValue B sst v s) = js_String B n"
    and "events_fired (setValue B sst v s) =
           (if fn_sourceBlock s \<and> events_enabled s \<and> fn_note s \<noteq> js_String B n
            then events_fired s @ [(fn_note s, js_String B n)] else events_fired s)"
  using assms by (simp_all add: setValue_def Let_def)

text \<open>
  C5.  Let \<open>n\<close> be what the candidate parses to (\<open>parseFloat(note || '0')\<close>), a
  number that \<open>String\<close> and \<open>Number\<close> take back to itself.  When \<open>n\<close> is
  \<open>NaN\<close> or negative, \<open>setValue\<close> leaves the whole state as it was: the stored
  value, the text and the events fired.  When \<open>setValue\<close> fires an event, \<open>n\<close> was
  accepted, the new stored value \<open>String(n)\<close> differs from the old one, and the one event
  added carries the old and the new value; when the new value equals the old one no event
  is fired.
\<close>

theorem C5_setValue_validation:
  assumes n: "n = js_parseFloat B (to_string B (js_or v (JStr ''0'')))"
    and roundtrip: "js_Number B (js_String B n) = n"
  shows "(js_isNaN n \<or> js_lt n (Fin 0) \<longrightarrow> setValue B sst v s = s)
     \<and> (events_fired (setValue B sst v s) \<noteq> events_fired s \<longrightarrow>
          \<not> js_isNaN n \<and> \<not> js_lt n (Fin 0)
          \<and> fn_note s \<noteq> js_String B n
          \<and> fn_note (setValue B sst v s) = js_String B n
          \<and> events_fired (setValue B sst v s) = events_fired s @ [(fn_note s, js_String B n)])
     \<and> (fn_note s = js_String B n \<longrightarrow> events_fired (setValue B sst v s) = events_fired s)"
proof (cases "js_isNaN n \<or> js_lt n (Fin 0)")
  case True
  then have "setValue B sst v s = s"
    using setValue_rejected [OF n, of sst s] roundtrip by simp
  with True show ?thesis by simp
next
  case False
  then have acc: "\<not> (js_isNaN (js_Number B (js_String B n)) \<or> js_lt (js_Number B (js_String B n)) (Fin 0))"
    using roundtrip by simp
  show ?thesis
    using False setValue_accepted [OF n acc, of sst s] by (auto split: if_splits)
qed

lemma dec_abc:
  "js_parseFloat dec_builtins (to_string dec_builtins (js_or (JStr ''abc'') (JStr ''0''))) = NaN"
  "js_Number dec_builtins (js_String dec_builtins NaN) = NaN"
  by (simp_all add: dec_builtins_def js_or_def dec_String_def dec_parseFloat_def dec_Number_def
      read_signed_def read_unsigned_def digit_value_def digits_value_def)

lemma dec_minus5:
  "js_parseFloat dec_builtins (to_string dec_builtins (js_or (JStr ''-5'') (JStr ''0''))) = Fin (- 5)"
  "js_Number dec_builtins (js_String dec_builtins (Fin (- 5))) = Fin (- 5)"
  by (simp_all add: dec_builtins_def js_or_def dec_String_def dec_parseFloat_def dec_Number_def
      read_signed_def read_unsigned_def digit_value_def digits_value_def Let_def digit_char_def)

lemma dec_262:
  "js_parseFloat dec_builtins (to_string dec_builtins (js_or (JStr ''262'') (JStr ''0''))) = Fin 262"
  "js_Number dec_builtins (js_String dec_builtins (Fin 262)) = Fin 262"
  "js_String dec_builtins (Fin 262) = ''262''"
  by (simp_all add: dec_builtins_def js_or_def dec_String_def dec_parseFloat_def dec_Number_def
      read_signed_def read_unsigned_def digit_value_def digits_value_def Let_def digit_char_def)

theorem C5_setValue_validation_witness:
  "setValue dec_builtins (\<lambda>t old. to_string dec_builtins t) (JStr ''abc'') (FieldNote ''262'' ''262'' True True)
     = FieldNote ''262'' ''262'' True True
   \<and> setValue dec_builtins (\<lambda>t old. to_string dec_builtins t) (JStr ''-5'') (FieldNote ''262'' ''262'' True True)
     = FieldNote ''262'' ''262'' True True
   \<and> events_fired (setValue dec_builtins (\<lambda>t old. to_string dec_builtins t) (JStr ''262'')
        (FieldNote ''262'' ''262'' True True)) = []"
  using C5_setValue_validation [OF dec_abc(1) [symmetric] dec_abc(2),
          of "\<lambda>t old. to_string dec_builtins t" "FieldNote ''262'' ''262'' True True"]
        C5_setValue_validation [OF dec_minus5(1) [symmetric] dec_minus5(2),
          of "\<lambda>t old. to_string dec_builtins t" "FieldNote ''262'' ''262'' True True"]
        C5_setValue_validation [OF dec_262(1) [symmetric] dec_262(2),
          of "\<lambda>t old. to_string dec_builtins t" "FieldNote ''262'' ''262'' True True"]
  by (simp add: js_isNaN_def dec_262(3) FieldNote_def)

lemma noteName_loop_find:
  "noteName_loop is F N n e = map_option (name_at N) (find (near_note F n e) is)"
  by (induction "is") simp_all

lemma getNoteName_find:
  "getNoteName B s =
     (case find (near_note (fn_noteFreq s) (js_Number B (fn_note s)) (fn_eps s))
             [0..<pianoSize_value (fn_nKeys s)] of
        Some i \<Rightarrow> name_at (fn_noteName s) i
      | None \<Rightarrow> JStr (if js_Number B (fn_note s) \<noteq> NaN then fn_note s @ '' Hz'' else fn_note s))"
  by (simp add: getNoteName_def noteName_loop_find js_isNaN_def Let_def split: option.splits)

lemma getNoteName_cong:
  "fn_note s = fn_note t \<Longrightarrow> fn_nKeys s = fn_nKeys t \<Longrightarrow> fn_noteFreq s = fn_noteFreq t \<Longrightarrow>
   fn_noteName s = fn_noteName t \<Longrightarrow> fn_eps s = fn_eps t \<Longrightarrow> getNoteName B s = getNoteName B t"
  by (simp add: getNoteName_def)

lemma setText_text:
  assumes "r' = (if js_isNaN (js_Number B (to_string B r)) then JStr (to_string B r) else getNoteName B s)"
  shows "fn_text (setText B sst r s) =
           (if r = JNull \<or> r' = JStr (fn_text s) then fn_text s else sst r' (fn_text s))"
  using assms by (auto simp add: setText_def Let_def)

lemma setValue_text:
  assumes "n = js_parseFloat B (to_string B (js_or v (JStr ''0'')))"
    and "\<not> (js_isNaN (js_Number B (js_String B n)) \<or> js_lt (js_Number B (js_String B n)) (Fin 0))"
    and "r = getNoteName B (s\<lparr>fn_note := js_String B n\<rparr>)"
    and "r' = (if js_isNaN (js_Number B (to_string B r)) then JStr (to_string B r) else r)"
  shows "fn_text (setValue B sst v s) =
           (if r = JNull \<or> r' = JStr (fn_text s) then fn_text s else sst r' (fn_text s))"
proof -
  define s2 where "s2 =
    (if fn_sourceBlock s \<and> events_enabled s \<and> fn_note s \<noteq> js_String B n
     then s\<lparr>events_fired := events_fired s @ [(fn_note s, js_String B n)]\<rparr>
     else s)\<lparr>fn_note := js_String B n\<rparr>"
  have sv: "setValue B sst v s = setText B sst (getNoteName B s2) s2"
    using assms(1,2) by (simp add: setValue_def Let_def s2_def)
  have g: "getNoteName B s2 = r"
    unfolding assms(3) by (rule getNoteName_cong) (simp_all add: s2_def)
  have t: "fn_text s2 = fn_text s" by (simp add: s2_def)
  have "r' = (if js_isNaN (js_Number B (to_string B r)) then JStr (to_string B r) else getNoteName B s2)"
    using assms(4) g by simp
  from setText_text [OF this, of sst] show ?thesis
    unfolding sv g t .
qed

text \<open>
  C6, amended.  \<open>getNoteName_\<close> returns the name of the first generated note whose
  frequency is less than \<open>eps_\<close> away from the stored value, and otherwise the stored
  text followed by \<open>Hz\<close>, not rounded (the stored text alone when it is not a number).
  The value rounded to two decimals, without a unit, is what \<open>getText\<close> returns.
  \<open>setValue\<close>, when it accepts a value, hands the result \<open>r\<close> of
  \<open>getNoteName_\<close> to \<open>setText\<close>, which stores it through the inherited
  \<open>setText\<close> unless it is the text already shown.
\<close>

theorem C6_display_text:
  assumes "n = js_parseFloat B (to_string B (js_or v (JStr ''0'')))"
    and "r = getNoteName B (s\<lparr>fn_note := js_String B n\<rparr>)"
    and "r' = (if js_isNaN (js_Number B (to_string B r)) then JStr (to_string B r) else r)"
  shows "getNoteName B s =
     (case find (near_note (fn_noteFreq s) (js_Number B (fn_note s)) (fn_eps s))
             [0..<pianoSize_value (fn_nKeys s)] of
        Some i \<Rightarrow> name_at (fn_noteName s) i
      | None \<Rightarrow> JStr (if js_Number B (fn_note s) \<noteq> NaN then fn_note s @ '' Hz'' else fn_note s))
   \<and> getText B s = js_toFixed2 B (js_Number B (fn_note s))
   \<and> (\<not> (js_isNaN (js_Number B (js_String B n)) \<or> js_lt (js_Number B (js_String B n)) (Fin 0)) \<longrightarrow>
        fn_text (setValue B sst v s) =
          (if r = JNull \<or> r' = JStr (fn_text s) then fn_text s else sst r' (fn_text s)))"
  using getNoteName_find [of B s] setValue_text [OF assms(1) _ assms(2,3), of sst]
  by (simp add: getText_def)

lemma keyFrequency_le: "k \<le> 73 \<Longrightarrow> keyFrequency k \<le> 1760"
proof -
  assume "k \<le> 73"
  then have "(real_of_int k - 49) / 12 \<le> 2" by simp
  then have "(2::real) powr ((real_of_int k - 49) / 12) \<le> 2 powr 2" by (simp only: powr_le_cancel_iff)
  then show ?thesis by (simp add: keyFrequency_def)
qed

lemma FieldNote_fields [simp]:
  "fn_note (FieldNote note text sb en) = note"
  "fn_text (FieldNote note text sb en) = text"
  "fn_eps (FieldNote note text sb en) = 1"
  "fn_nKeys (FieldNote note text sb en) = medium"
  "fn_noteFreq (FieldNote note text sb en) = []"
  "fn_noteName (FieldNote note text sb en) = []"
  by (simp_all add: FieldNote_def)

lemma medium_far:
  assumes "s0 = createNotesArray (FieldNote note text sb en)" and "i < 36" and "2000 \<le> x"
  shows "\<not> near_note (fn_noteFreq s0) (Fin x) 1 i"
proof -
  have "fn_noteFreq s0 ! i = keyFrequency (28 + int i)" "length (fn_noteFreq s0) = 36"
    using assms(1,2) by (simp_all add: createNotesArray_freqs)
  moreover have "keyFrequency (28 + int i) \<le> 1760" using assms(2) by (simp add: keyFrequency_le)
  ultimately show ?thesis using assms(2,3) by (simp add: near_note_def freq_at_def)
qed

lemma medium_find_far:
  assumes "s0 = createNotesArray (FieldNote note text sb en)" and "2000 \<le> x"
  shows "find (near_note (fn_noteFreq s0) (Fin x) 1) [0..<36] = None"
  using medium_far [OF assms(1) _ assms(2)] by (simp add: find_None_iff del: upt_Suc)

lemma dec_5000:
  "dec_Number ''5000.123'' = Fin (5000123 / 1000)"
  "dec_toFixed2 (Fin (5000123 / 1000)) = ''5000.12''"
  by (simp_all add: dec_Number_def read_signed_def read_unsigned_def digit_value_def
      digits_value_def dec_toFixed2_def Let_def digit_char_def)

lemma getNoteName_no_match:
  assumes "find (near_note (fn_noteFreq s) (js_Number B (fn_note s)) (fn_eps s))
             [0..<pianoSize_value (fn_nKeys s)] = None"
  shows "getNoteName B s = JStr (if js_Number B (fn_note s) \<noteq> NaN then fn_note s @ '' Hz'' else fn_note s)"
    and "spec_displayText B s = JStr (js_toFixed2 B (js_Number B (fn_note s)) @ '' Hz'')"
  using assms by (simp_all only: getNoteName_find spec_displayText_def option.case)

text \<open>
  C6, as stated, fails: on the 36-key table the stored value \<open>5000.123\<close> is near no
  note, and the text is \<open>5000.123 Hz\<close>, not the rounded \<open>5000.12 Hz\<close>; what
  \<open>getText\<close> returns is \<open>5000.12\<close>, without the unit.
\<close>

theorem C6_counterexample:
  "getNoteName dec_builtins (createNotesArray (FieldNote ''5000.123'' ''5000.123'' True True))
     \<noteq> spec_displayText dec_builtins (createNotesArray (FieldNote ''5000.123'' ''5000.123'' True True))
   \<and> JStr (getText dec_builtins (createNotesArray (FieldNote ''5000.123'' ''5000.123'' True True)))
     \<noteq> spec_displayText dec_builtins (createNotesArray (FieldNote ''5000.123'' ''5000.123'' True True))"
proof -
  let ?s = "createNotesArray (FieldNote ''5000.123'' ''5000.123'' True True)"
  have num: "js_Number dec_builtins (fn_note ?s) = Fin (5000123 / 1000)"
    by (simp add: dec_builtins_def dec_5000)
  have far: "find (near_note (fn_noteFreq ?s) (js_Number dec_builtins (fn_note ?s)) (fn_eps ?s))
               [0..<pianoSize_value (fn_nKeys ?s)] = None"
    unfolding num by (simp add: medium_find_far [OF refl])
  have "getNoteName dec_builtins ?s = JStr ''5000.123 Hz''"
    unfolding getNoteName_no_match(1) [OF far] num by simp
  moreover have "spec_displayText dec_builtins ?s = JStr ''5000.12 Hz''"
    unfolding getNoteName_no_match(2) [OF far] num by (simp add: dec_builtins_def dec_5000)
  moreover have "getText dec_builtins ?s = ''5000.12''"
    unfolding getText_def num by (simp add: dec_builtins_def dec_5000)
  ultimately show ?thesis by simp
qed

lemma fraction_digits_numeral:
  "fraction_digits (numeral k) f =
     (if f = 0 then []
      else (let d = nat \<lfloor>f * 10\<rfloor> in digit_char d # fraction_digits (pred_numeral k) (f * 10 - real d)))"
  by (simp add: numeral_eq_Suc)

lemma dec_5000_more:
  "dec_parseFloat ''5000.123'' = Fin (5000123 / 1000)"
  "dec_String (Fin (5000123 / 1000)) = ''5000.123''"
  "dec_Number ''5000.123 Hz'' = NaN"
  by (simp_all add: dec_parseFloat_def dec_Number_def read_signed_def read_unsigned_def
      digit_value_def digits_value_def dec_String_def Let_def digit_char_def
      fraction_digits_numeral)

theorem C6_display_text_witness:
  "getText dec_builtins (createNotesArray (FieldNote ''5000.123'' ''262'' True True)) = ''5000.12''
   \<and> getNoteName dec_builtins (createNotesArray (FieldNote ''5000.123'' ''262'' True True))
       = JStr ''5000.123 Hz''
   \<and> fn_text (setValue dec_builtins (\<lambda>t old. to_string dec_builtins t) (JStr ''5000.123'')
        (createNotesArray (FieldNote ''5000.123'' ''262'' True True))) = ''5000.123 Hz''"
proof -
  let ?s = "createNotesArray (FieldNote ''5000.123'' ''262'' True True)"
  let ?sst = "\<lambda>t old. to_string dec_builtins t"
  have num: "js_Number dec_builtins (fn_note ?s) = Fin (5000123 / 1000)"
    by (simp add: dec_builtins_def dec_5000)
  have far: "find (near_note (fn_noteFreq ?s) (Fin (5000123 / 1000)) 1) [0..<36] = None"
    by (rule medium_find_far [OF refl]) simp
  have n: "js_parseFloat dec_builtins (to_string dec_builtins (js_or (JStr ''5000.123'') (JStr ''0'')))
             = Fin (5000123 / 1000)"
    by (simp add: dec_builtins_def js_or_def dec_5000_more)
  have str: "js_String dec_builtins (Fin (5000123 / 1000)) = ''5000.123''"
    by (simp add: dec_builtins_def dec_5000_more)
  have same: "?s\<lparr>fn_note := ''5000.123''\<rparr> = ?s"
    by (simp add: createNotesArray_def FieldNote_def split: prod.splits)
  have acc: "\<not> (js_isNaN (js_Number dec_builtins (js_String dec_builtins (Fin (5000123 / 1000))))
               \<or> js_lt (js_Number dec_builtins (js_String dec_builtins (Fin (5000123 / 1000)))) (Fin 0))"
    by (simp add: str) (simp add: dec_builtins_def dec_5000 js_isNaN_def)
  have hz: "js_isNaN (js_Number dec_builtins ''5000.123 Hz'')"
    by (simp add: dec_builtins_def dec_5000_more js_isNaN_def)
  from C6_display_text [OF n [symmetric] refl refl, of ?s ?sst]
  show ?thesis
    using acc unfolding str same
    by (simp add: far dec_builtins_def dec_5000 dec_5000_more js_isNaN_def)
qed

text \<open>
  The validator rejects the same candidates as \<open>setValue\<close>; \<open>setNumberOfKeys\<close>
  keeps the number of keys one of the three sizes; and \<open>init\<close> leaves a table with one
  entry for each key.
\<close>

lemma classValidator_string:
  assumes "n = js_parseFloat B (to_string B (js_or (JStr t) (JStr ''0'')))"
  shows "classValidator B (JStr t) =
           (if js_isNaN n \<or> js_lt n (Fin 0) then None else Some (js_String B n))"
  using assms by (simp add: classValidator_def Let_def)

lemma classValidator_null: "classValidator B JNull = None"
  by (simp add: classValidator_def)

lemma setNumberOfKeys_value:
  "pianoSize_value (fn_nKeys (setNumberOfKeys sz s)) =
     (if sz = 12 \<or> sz = 36 \<or> sz = 60 then sz else pianoSize_value (fn_nKeys s))"
  by (simp add: setNumberOfKeys_def)

lemma setText_arrays [simp]:
  "fn_noteFreq (setText B sst t s) = fn_noteFreq s"
  "fn_noteName (setText B sst t s) = fn_noteName s"
  "fn_nKeys (setText B sst t s) = fn_nKeys s"
  by (simp_all add: setText_def Let_def)

lemma setValue_arrays [simp]:
  "fn_noteFreq (setValue B sst v s) = fn_noteFreq s"
  "fn_noteName (setValue B sst v s) = fn_noteName s"
  "fn_nKeys (setValue B sst v s) = fn_nKeys s"
  by (simp_all add: setValue_def Let_def)

lemma init_table:
  "length (fn_noteName (init B sst s)) = pianoSize_value (fn_nKeys s)"
  "fn_noteFreq (init B sst s) =
     map (\<lambda>j. keyFrequency (startKey (fn_nKeys s) + int j)) [0..<pianoSize_value (fn_nKeys s)]"
  by (simp_all add: init_def Let_def createNotesArray_length createNotesArray_freqs)

section \<open>Properties of the stop-after-idle timer\<close>

lemma timeout_callback_guard:
  "timeout_callback fld cnt s = (if soundingKeys s fld = cnt then s\<lparr>manager := stop (manager s)\<rparr> else s)"
  by (simp add: timeout_callback_def)

lemma note_step_counter:
  "e \<noteq> ShowEditor fld \<Longrightarrow> soundingKeys s fld \<le> soundingKeys (note_step hc ok e s) fld"
  by (cases e) (auto simp: key_MOUSEDOWN_def timeout_callback_def Let_def split: list.splits)

lemma note_step_counter_key:
  "soundingKeys s fld < soundingKeys (note_step hc ok (KeyMouseDown fld f) s) fld"
  by (simp add: key_MOUSEDOWN_def Let_def)

lemma note_run_counter:
  "\<forall>e \<in> set es. e \<noteq> ShowEditor fld \<Longrightarrow> soundingKeys s fld \<le> soundingKeys (note_run hc ok es s) fld"
proof (induction es arbitrary: s)
  case Nil
  then show ?case by simp
next
  case (Cons e es)
  from Cons.prems have "e \<noteq> ShowEditor fld" "\<forall>e \<in> set es. e \<noteq> ShowEditor fld" by simp_all
  from note_step_counter [OF this(1), of s hc ok] Cons.IH [OF this(2), of "note_step hc ok e s"]
  show ?case by simp
qed

lemma note_run_counter_key:
  "\<forall>e \<in> set es. e \<noteq> ShowEditor fld \<Longrightarrow> KeyMouseDown fld f \<in> set es \<Longrightarrow>
   soundingKeys s fld < soundingKeys (note_run hc ok es s) fld"
proof (induction es arbitrary: s)
  case Nil
  then show ?case by simp
next
  case (Cons e es)
  from Cons.prems(1) have ne: "e \<noteq> ShowEditor fld" and nes: "\<forall>e \<in> set es. e \<noteq> ShowEditor fld"
    by simp_all
  show ?case
  proof (cases "e = KeyMouseDown fld f")
    case True
    from note_step_counter_key [of s fld hc ok f]
      note_run_counter [OF nes, of "note_step hc ok e s" hc ok] True
    show ?thesis by simp
  next
    case False
    with Cons.prems(2) have "KeyMouseDown fld f \<in> set es" by simp
    from Cons.IH [OF nes this, of "note_step hc ok e s"] note_step_counter [OF ne, of s hc ok]
    show ?thesis by simp
  qed
qed

text \<open>
  Within one opening of the editor of one field the guard works: once a later key of the
  same field has been pressed, and the editor of that field has not been opened again, the
  callback of the earlier key changes nothing.
\<close>

lemma stale_timer_guard_within_session:
  assumes "s1 = key_MOUSEDOWN hc ok fld fx s"
    and "\<forall>e \<in> set es. e \<noteq> ShowEditor fld"
    and "KeyMouseDown fld fy \<in> set es"
  shows "timeout_callback fld (soundingKeys s1 fld) (note_run hc ok es s1) = note_run hc ok es s1"
  using note_run_counter_key [OF assms(2,3), of s1 hc ok] by (simp add: timeout_callback_def)

text \<open>
  C4.  The stop scheduled by a key X must not stop the tone of a later key Y.  The callback
  stops the tone exactly when \<open>soundingKeys_\<close> of its field equals the value it has
  captured; but \<open>showEditor_\<close> sets the counter back to 0, and each field counts for
  itself while the tone is shared.  So when the editor is opened again between X and Y, or
  Y is a key of another field, the counter again equals the value X captured: the timeout
  of X fires, the gain is 0, and the timeout of Y is still pending.  Without the reopening
  the gain stays 1.
\<close>

theorem C4_stale_timer_after_reopen:
  "vca_gain (manager (note_run True True
      [ShowEditor 0, KeyMouseDown 0 440, ShowEditor 0, KeyMouseDown 0 262, TimeoutFires]
      note_audio_start)) = Some 0
   \<and> timeouts (note_run True True
      [ShowEditor 0, KeyMouseDown 0 440, ShowEditor 0, KeyMouseDown 0 262, TimeoutFires]
      note_audio_start) = [(0, 1)]
   \<and> vca_gain (manager (note_run True True
      [ShowEditor 0, KeyMouseDown 0 440, ShowEditor 1, KeyMouseDown 1 262, TimeoutFires]
      note_audio_start)) = Some 0
   \<and> timeouts (note_run True True
      [ShowEditor 0, KeyMouseDown 0 440, ShowEditor 1, KeyMouseDown 1 262, TimeoutFires]
      note_audio_start) = [(1, 1)]
   \<and> vca_gain (manager (note_run True True
      [ShowEditor 0, KeyMouseDown 0 440, KeyMouseDown 0 262, TimeoutFires]
      note_audio_start)) = Some 1"
  by (simp add: note_audio_start_def key_MOUSEDOWN_def timeout_callback_def stop_def tone_def Let_def)

end
